theory Spec2Isabelle
  imports Complex_Main "HOL-Library.Sublist" "HOL-Library.Multiset"
begin

section \<open>Numbers\<close>

text \<open>
  The program computes with Python floats. For the formulas and the pipeline they are
  modelled by the real numbers they stand for: every operation is exact, and rounding,
  overflow, infinities and NaN are outside this reading (they are followed in the
  section on binary64 arithmetic, by a second reading of the calculator). Python's \<^verbatim>\<open>**\<close> with a float base and a fractional exponent
  leaves the reals when the base is negative (the result is a \<^verbatim>\<open>complex\<close>), so a value
  computed through it is a \<open>pynum\<close>: a float or a complex number.
\<close>

datatype pynum = PyFloat real | PyComplex complex

text \<open>
  \<^verbatim>\<open>a * b\<close> on floats and complex numbers: a float operand is first converted to a
  complex number with imaginary part 0 when the other one is complex.
\<close>

fun py_mul :: "pynum \<Rightarrow> pynum \<Rightarrow> pynum" where
  "py_mul (PyFloat a) (PyFloat b) = PyFloat (a * b)"
| "py_mul (PyFloat a) (PyComplex c) = PyComplex (complex_of_real a * c)"
| "py_mul (PyComplex c) (PyFloat b) = PyComplex (c * complex_of_real b)"
| "py_mul (PyComplex c) (PyComplex d) = PyComplex (c * d)"

text \<open>
  \<^verbatim>\<open>x ** w\<close> for a float \<open>x\<close> and a float exponent \<open>w\<close> that is positive and not an
  integer (the source uses 0.43 and 0.33 only). For \<open>x \<ge> 0\<close> the result is the float
  \<open>x\<^sup>w\<close>, with \<^verbatim>\<open>0.0 ** w == 0.0\<close>; for \<open>x < 0\<close> Python 3 returns the complex number
  \<open>|x|\<^sup>w (cos (\<pi> w) + i sin (\<pi> w))\<close>.
\<close>

definition py_pow :: "real \<Rightarrow> real \<Rightarrow> pynum" where
  "py_pow x w =
     (if x < 0 then PyComplex (complex_of_real (\<bar>x\<bar> powr w) * cis (pi * w))
      else PyFloat (x powr w))"

section \<open>Impact Effect Calculator\<close>

text \<open>The dictionary that \<^verbatim>\<open>calculate_impact_effects\<close> returns, one field for each key.\<close>

record impact_effects =
  crater_diameter :: pynum
  energy_megatons :: real
  severe_damage_radius :: pynum
  moderate_damage_radius :: pynum
  light_damage_radius :: pynum

definition calculate_impact_effects :: "real \<Rightarrow> real \<Rightarrow> impact_effects" where
  "calculate_impact_effects diameter_km velocity_kmps =
     (let crater = py_mul (PyFloat (diameter_km * 20)) (py_pow (velocity_kmps / 17) 0.43);
          mass = (4 / 3) * pi * (diameter_km * 500) ^ 3 * 2500;
          energy_joules = 0.5 * mass * (velocity_kmps * 1000) ^ 2;
          megatons = energy_joules / (4.184 * 10 ^ 15);
          severe_damage = py_mul (py_pow megatons 0.33) (PyFloat 2.2);
          moderate_damage = py_mul (py_pow megatons 0.33) (PyFloat 5.5);
          light_damage = py_mul (py_pow megatons 0.33) (PyFloat 15)
      in \<lparr> crater_diameter = crater,
           energy_megatons = megatons,
           severe_damage_radius = severe_damage,
           moderate_damage_radius = moderate_damage,
           light_damage_radius = light_damage \<rparr>)"

section \<open>Python's built-in functions\<close>

text \<open>
  Two built-in functions of Python are used on values the program does not control: the
  conversion \<^verbatim>\<open>float(s)\<close> of a string, which raises \<^verbatim>\<open>ValueError\<close> on a string that is
  no number (\<open>None\<close> here), and the formatting \<^verbatim>\<open>format(x, spec)\<close> behind the
  replacement fields \<^verbatim>\<open>{x:spec}\<close> of an f-string. The model takes both as parameters.
\<close>

record builtins =
  py_float :: "string \<Rightarrow> real option"
  py_format :: "string \<Rightarrow> pynum \<Rightarrow> string"

datatype error =
  KeyError string | IndexError | ValueError | AttributeError | OverflowError | ZeroDivisionError

definition and_then :: "error + 'a \<Rightarrow> ('a \<Rightarrow> error + 'b) \<Rightarrow> error + 'b" where
  "and_then r f = (case r of Inl e \<Rightarrow> Inl e | Inr x \<Rightarrow> f x)"

text \<open>\<^verbatim>\<open>d[k]\<close> on a dictionary whose values have one type.\<close>

definition getitem :: "(string \<rightharpoonup> 'v) \<Rightarrow> string \<Rightarrow> error + 'v" where
  "getitem d k = (case d k of None \<Rightarrow> Inl (KeyError k) | Some v \<Rightarrow> Inr v)"

text \<open>
  \<^verbatim>\<open>d[k]\<close> on a dictionary modelled as a record: the field of the key \<open>k\<close> is \<open>None\<close>
  when the dictionary has no such key.
\<close>

definition getkey :: "'v option \<Rightarrow> string \<Rightarrow> error + 'v" where
  "getkey field k = (case field of None \<Rightarrow> Inl (KeyError k) | Some v \<Rightarrow> Inr v)"

text \<open>\<^verbatim>\<open>xs[0]\<close> on a list.\<close>

definition getitem0 :: "'a list \<Rightarrow> error + 'a" where
  "getitem0 xs = (case xs of [] \<Rightarrow> Inl IndexError | x # _ \<Rightarrow> Inr x)"

definition to_float :: "builtins \<Rightarrow> string \<Rightarrow> error + real" where
  "to_float py s = (case py_float py s of None \<Rightarrow> Inl ValueError | Some x \<Rightarrow> Inr x)"

text \<open>\<^verbatim>\<open>str(n)\<close> of a non-negative integer: its decimal digits.\<close>

definition digit :: "nat \<Rightarrow> char" where
  "digit n = ''0123456789'' ! n"

function str_nat :: "nat \<Rightarrow> string" where
  "str_nat n = (if n < 10 then [digit n] else str_nat (n div 10) @ [digit (n mod 10)])"
  by pat_completeness auto
termination
  by (relation "measure (\<lambda>n. n)") auto

declare str_nat.simps [simp del]

text \<open>
  \<^verbatim>\<open>xs.sort(key=key, reverse=reverse)\<close> on keys that are floats. The sort is stable; with
  \<^verbatim>\<open>reverse=True\<close> the list is reversed, sorted and reversed again, which keeps elements
  of equal keys in their original order.
\<close>

definition list_sort :: "('a \<Rightarrow> real) \<Rightarrow> bool \<Rightarrow> 'a list \<Rightarrow> 'a list" where
  "list_sort key reverse xs =
     (if reverse then rev (sort_key key (rev xs)) else sort_key key xs)"

text \<open>Standard output: \<^verbatim>\<open>print(s)\<close> appends \<open>s\<close> and a line feed.\<close>

abbreviation newline :: string where
  "newline \<equiv> [CHR 0x0A]"

definition print :: "string \<Rightarrow> string \<Rightarrow> string" where
  "print s out = out @ s @ newline"

section \<open>Input\<close>

text \<open>
  The feed is the JSON document of the NASA service, with the types of its documented
  shape. A dictionary whose values have different types is a record with one optional
  field for each key (\<open>None\<close>: the key is absent); a dictionary whose values have one
  type is a map. The value under the key \<^verbatim>\<open>near_earth_objects\<close> is the dictionary of the
  dates, given by the list of its items in the order \<^verbatim>\<open>.items()\<close> yields them, or a
  JSON value that is no dictionary (\<^verbatim>\<open>null\<close>, a number, a string, a list), which has no
  method \<^verbatim>\<open>items\<close>. The argument of \<^verbatim>\<open>create_impact_map\<close> is \<open>None\<close> when the fetch has
  failed.
\<close>

record close_approach =
  relative_velocity :: "(string \<rightharpoonup> string) option"
  miss_distance :: "(string \<rightharpoonup> string) option"

record raw_neo =
  name :: "string option"
  estimated_diameter :: "(string \<rightharpoonup> (string \<rightharpoonup> real)) option"
  close_approach_data :: "close_approach list option"
  is_potentially_hazardous_asteroid :: "bool option"

datatype dated_objects = Dict "(string \<times> raw_neo list) list" | NotDict

record feed =
  element_count :: "int option"
  near_earth_objects :: "dated_objects option"

section \<open>Extraction of the fields of a record\<close>

text \<open>
  \<^verbatim>\<open>x["estimated_diameter"]["kilometers"]["estimated_diameter_max"]\<close>: the sort key of
  line 68 and the diameter of line 89.
\<close>

definition diameter_max :: "raw_neo \<Rightarrow> error + real" where
  "diameter_max x =
     and_then (getkey (estimated_diameter x) ''estimated_diameter'') (\<lambda>ed.
     and_then (getitem ed ''kilometers'') (\<lambda>km.
     getitem km ''estimated_diameter_max''))"

text \<open>\<^verbatim>\<open>neo["close_approach_data"][0]\<close>\<close>

definition first_approach :: "raw_neo \<Rightarrow> error + close_approach" where
  "first_approach neo =
     and_then (getkey (close_approach_data neo) ''close_approach_data'') getitem0"

text \<open>The values that lines 88 to 92 bind, in the order of the assignments.\<close>

record near_earth_object =
  neo_name :: string
  diameter_km :: real
  velocity_kmps :: real
  miss_distance_km :: real
  hazardous :: bool

definition extract_fields :: "builtins \<Rightarrow> raw_neo \<Rightarrow> error + near_earth_object" where
  "extract_fields py neo =
     and_then (getkey (name neo) ''name'') (\<lambda>nm.
     and_then (diameter_max neo) (\<lambda>d.
     and_then (first_approach neo) (\<lambda>ca.
     and_then (getkey (relative_velocity ca) ''relative_velocity'') (\<lambda>rv.
     and_then (getitem rv ''kilometers_per_second'') (\<lambda>vs.
     and_then (to_float py vs) (\<lambda>v.
     and_then (first_approach neo) (\<lambda>ca'.
     and_then (getkey (miss_distance ca') ''miss_distance'') (\<lambda>md.
     and_then (getitem md ''kilometers'') (\<lambda>ms.
     and_then (to_float py ms) (\<lambda>dist.
     and_then (getkey (is_potentially_hazardous_asteroid neo)
                 ''is_potentially_hazardous_asteroid'') (\<lambda>hz.
     Inr \<lparr> neo_name = nm, diameter_km = d, velocity_kmps = v,
           miss_distance_km = dist, hazardous = hz \<rparr>)))))))))))"

section \<open>Ranking\<close>

text \<open>
  Line 68 sorts all records by the diameter, largest first. Python computes the key of
  every element, in list order, before it compares any two: the first record without
  the key raises \<^verbatim>\<open>KeyError\<close>.
\<close>

fun map_err :: "('a \<Rightarrow> error + 'b) \<Rightarrow> 'a list \<Rightarrow> error + 'b list" where
  "map_err f [] = Inr []"
| "map_err f (x # xs) =
     (case f x of
        Inl e \<Rightarrow> Inl e
      | Inr y \<Rightarrow> (case map_err f xs of Inl e \<Rightarrow> Inl e | Inr ys \<Rightarrow> Inr (y # ys)))"

definition sort_by_diameter :: "raw_neo list \<Rightarrow> error + raw_neo list" where
  "sort_by_diameter all_neos =
     (case map_err diameter_max all_neos of
        Inl e \<Rightarrow> Inl e
      | Inr keys \<Rightarrow> Inr (map snd (list_sort fst True (zip keys all_neos))))"

section \<open>Impact sites\<close>

definition locations :: "(real \<times> real) list" where
  "locations =
     [(40.7128, -74.0060),
      (34.0522, -118.2437),
      (51.5074, -0.1278),
      (35.6762, 139.6503),
      (48.8566, 2.3522),
      (-33.8688, 151.2093),
      (19.4326, -99.1332),
      (55.7558, 37.6173),
      (28.6139, 77.2090),
      (39.9042, 116.4074)]"

text \<open>\<^verbatim>\<open>locations[idx % len(locations)]\<close>, for the index that \<^verbatim>\<open>enumerate\<close> counts from 0.\<close>

definition site_for :: "nat \<Rightarrow> real \<times> real" where
  "site_for idx = locations ! (idx mod length locations)"

section \<open>Overlays\<close>

datatype popup = Popup (html: string) (max_width: nat)

datatype icon = Icon (icon_color: string) (icon_name: string) (icon_prefix: string)

datatype overlay =
    is_circle: Circle (location: "real \<times> real") (radius: pynum) (color: string) (fill: bool)
      (fillColor: string) (fillOpacity: real) (popup: "popup option") (tooltip: string)
  | is_marker: Marker (location: "real \<times> real") (popup: "popup option") (icon: icon) (tooltip: string)

record folium_map =
  map_location :: "real \<times> real"
  zoom_start :: nat
  children :: "overlay list"

definition add_to :: "overlay \<Rightarrow> folium_map \<Rightarrow> folium_map" where
  "add_to x m = m\<lparr>children := children m @ [x]\<rparr>"

definition yes_no :: "bool \<Rightarrow> string" where
  "yes_no b = (if b then ''Yes'' else ''No'')"

definition popup_html :: "builtins \<Rightarrow> near_earth_object \<Rightarrow> impact_effects \<Rightarrow> string" where
  \<open>popup_html py n effects =
     newline @
     ''        <div style="width: 300px;">'' @ newline @
     ''            <h4>'' @ neo_name n @ ''</h4>'' @ newline @
     ''            <b>Diameter:</b> '' @ py_format py ''.3f'' (PyFloat (diameter_km n)) @ '' km<br>'' @ newline @
     ''            <b>Velocity:</b> '' @ py_format py ''.2f'' (PyFloat (velocity_kmps n)) @ '' km/s<br>'' @ newline @
     ''            <b>Miss Distance:</b> '' @ py_format py '',.0f'' (PyFloat (miss_distance_km n)) @ '' km<br>'' @ newline @
     ''            <b>Hazardous:</b> '' @ yes_no (hazardous n) @ ''<br>'' @ newline @
     ''            <hr>'' @ newline @
     ''            <h5>Hypothetical Impact Effects:</h5>'' @ newline @
     ''            <b>Impact Energy:</b> '' @ py_format py ''.1f'' (PyFloat (energy_megatons effects)) @ '' megatons TNT<br>'' @ newline @
     ''            <b>Crater Diameter:</b> '' @ py_format py ''.2f'' (crater_diameter effects) @ '' km<br>'' @ newline @
     ''            <b>Severe Damage:</b> '' @ py_format py ''.1f'' (severe_damage_radius effects) @ '' km radius<br>'' @ newline @
     ''            <b>Moderate Damage:</b> '' @ py_format py ''.1f'' (moderate_damage_radius effects) @ '' km radius<br>'' @ newline @
     ''            <b>Light Damage:</b> '' @ py_format py ''.1f'' (light_damage_radius effects) @ '' km radius'' @ newline @
     ''        </div>'' @ newline @
     ''        ''\<close>

text \<open>Lines 119 to 169: four circles and a marker, added to the map in this order.\<close>

definition add_overlays ::
  "near_earth_object \<Rightarrow> impact_effects \<Rightarrow> real \<times> real \<Rightarrow> string \<Rightarrow> folium_map \<Rightarrow> folium_map" where
  "add_overlays n effects site popup_text m =
     (let m1 = add_to (Circle site (py_mul (crater_diameter effects) (PyFloat 500))
                  ''darkred'' True ''red'' 0.7 (Some (Popup popup_text 300))
                  (neo_name n @ '' - Crater'')) m;
          m2 = add_to (Circle site (py_mul (severe_damage_radius effects) (PyFloat 1000))
                  ''orangered'' True ''orange'' 0.4 None ''Severe Damage Zone'') m1;
          m3 = add_to (Circle site (py_mul (moderate_damage_radius effects) (PyFloat 1000))
                  ''yellow'' True ''yellow'' 0.2 None ''Moderate Damage Zone'') m2;
          m4 = add_to (Circle site (py_mul (light_damage_radius effects) (PyFloat 1000))
                  ''lightblue'' True ''lightblue'' 0.1 None ''Light Damage Zone'') m3
      in add_to (Marker site (Some (Popup popup_text 300))
                  (Icon (if hazardous n then ''red'' else ''blue'') ''meteor'' ''fa'')
                  (neo_name n)) m4)"

text \<open>Lines 172 to 178: the lines printed for one object.\<close>

definition print_info :: "builtins \<Rightarrow> nat \<Rightarrow> near_earth_object \<Rightarrow> impact_effects \<Rightarrow> string \<Rightarrow> string" where
  "print_info py idx n effects out =
     (let o1 = print (str_nat (idx + 1) @ ''. '' @ neo_name n) out;
          o2 = print (''   Diameter: '' @ py_format py ''.3f'' (PyFloat (diameter_km n)) @ '' km'') o1;
          o3 = print (''   Velocity: '' @ py_format py ''.2f'' (PyFloat (velocity_kmps n)) @ '' km/s'') o2;
          o4 = print (''   Impact Energy: '' @ py_format py ''.1f'' (PyFloat (energy_megatons effects))
                        @ '' megatons'') o3;
          o5 = print (''   Crater: '' @ py_format py ''.2f'' (crater_diameter effects) @ '' km diameter'') o4;
          o6 = print (''   Severe damage: '' @ py_format py ''.1f'' (severe_damage_radius effects)
                        @ '' km radius'') o5
      in print (''   Hazardous: '' @ yes_no (hazardous n) @ newline) o6)"

section \<open>The pipeline\<close>

text \<open>
  The body of the loop of line 87 on the map and the standard output. The extraction
  comes first, so an iteration in which it raises changes neither. In the exact
  arithmetic of the pipeline the calculator of line 95 returns for every input; the
  \<^verbatim>\<open>OverflowError\<close> that \<^verbatim>\<open>**\<close> raises on floats out of range is not represented
  here (\<open>calculate_impact_effects_float\<close> has it).
\<close>

definition loop_body ::
  "builtins \<Rightarrow> nat \<Rightarrow> raw_neo \<Rightarrow> folium_map \<Rightarrow> string \<Rightarrow> (error + folium_map) \<times> string" where
  "loop_body py idx neo m out =
     (case extract_fields py neo of
        Inl e \<Rightarrow> (Inl e, out)
      | Inr n \<Rightarrow>
          (let effects = calculate_impact_effects (diameter_km n) (velocity_kmps n);
               site = site_for idx;
               popup_text = popup_html py n effects
           in (Inr (add_overlays n effects site popup_text m), print_info py idx n effects out)))"

fun loop ::
  "builtins \<Rightarrow> (nat \<times> raw_neo) list \<Rightarrow> folium_map \<Rightarrow> string \<Rightarrow> (error + folium_map) \<times> string" where
  "loop py [] m out = (Inr m, out)"
| "loop py ((idx, neo) # rest) m out =
     (case loop_body py idx neo m out of
        (Inl e, out') \<Rightarrow> (Inl e, out')
      | (Inr m', out') \<Rightarrow> loop py rest m' out')"

definition new_map :: folium_map where
  "new_map = \<lparr> map_location = (40.7128, -74.0060), zoom_start = 5, children = [] \<rparr>"

text \<open>
  \<^verbatim>\<open>create_impact_map(neo_data)\<close>, from the standard output before the call to the
  returned map, or the exception raised, and the standard output after it. The test of
  line 58 holds for \<open>None\<close>, for the empty dictionary and for a dictionary without the
  key \<^verbatim>\<open>near_earth_objects\<close>; the empty dictionary has no such key either. Line 64
  calls \<^verbatim>\<open>.items()\<close> on the value of the key, which raises \<^verbatim>\<open>AttributeError\<close> when the
  value is no dictionary.
\<close>

definition create_impact_map ::
  "builtins \<Rightarrow> feed option \<Rightarrow> string \<Rightarrow> (error + folium_map) \<times> string" where
  "create_impact_map py neo_data out =
     (let m = new_map in
      case neo_data of
        None \<Rightarrow> (Inr m, print ''No NEO data available'' out)
      | Some data \<Rightarrow>
          (case near_earth_objects data of
             None \<Rightarrow> (Inr m, print ''No NEO data available'' out)
           | Some NotDict \<Rightarrow> (Inl AttributeError, out)
           | Some (Dict by_date) \<Rightarrow>
               (let all_neos = concat (map snd by_date) in
                case sort_by_diameter all_neos of
                  Inl e \<Rightarrow> (Inl e, out)
                | Inr sorted_neos \<Rightarrow>
                    (let top_neos = take 10 sorted_neos;
                         out1 = print (newline @ ''Found '' @ str_nat (length sorted_neos)
                                  @ '' Near Earth Objects. Showing top 10 by size:'' @ newline) out
                     in loop py (enumerate 0 top_neos) m out1))))"

section \<open>Required keys\<close>

text \<open>
  The keys that the extraction reads, as a predicate on the record: \<open>name\<close>,
  \<open>estimated_diameter.kilometers.estimated_diameter_max\<close>,
  \<open>close_approach_data[0].relative_velocity.kilometers_per_second\<close>,
  \<open>close_approach_data[0].miss_distance.kilometers\<close> and
  \<open>is_potentially_hazardous_asteroid\<close>. The keys below \<open>close_approach_data[0]\<close> are absent
  when the list is empty.
\<close>

definition has_key :: "(string \<rightharpoonup> 'v) option \<Rightarrow> string \<Rightarrow> bool" where
  "has_key d k = (case d of None \<Rightarrow> False | Some f \<Rightarrow> f k \<noteq> None)"

definition required_keys_present :: "raw_neo \<Rightarrow> bool" where
  "required_keys_present neo =
     (name neo \<noteq> None
      \<and> (case estimated_diameter neo of
           None \<Rightarrow> False
         | Some ed \<Rightarrow> has_key (ed ''kilometers'') ''estimated_diameter_max'')
      \<and> (case close_approach_data neo of
           None \<Rightarrow> False
         | Some [] \<Rightarrow> False
         | Some (ca # _) \<Rightarrow>
             has_key (relative_velocity ca) ''kilometers_per_second''
             \<and> has_key (miss_distance ca) ''kilometers'')
      \<and> is_potentially_hazardous_asteroid neo \<noteq> None)"

text \<open>
  The two strings that the extraction converts, where the record has them, are numbers
  for \<^verbatim>\<open>float\<close>.
\<close>

definition parses :: "builtins \<Rightarrow> (string \<rightharpoonup> string) option \<Rightarrow> string \<Rightarrow> bool" where
  "parses py d k =
     (case d of
        None \<Rightarrow> True
      | Some f \<Rightarrow> (case f k of None \<Rightarrow> True | Some s \<Rightarrow> py_float py s \<noteq> None))"

definition numeric_strings_parse :: "builtins \<Rightarrow> raw_neo \<Rightarrow> bool" where
  "numeric_strings_parse py neo =
     (case close_approach_data neo of
        None \<Rightarrow> True
      | Some [] \<Rightarrow> True
      | Some (ca # _) \<Rightarrow>
          parses py (relative_velocity ca) ''kilometers_per_second''
          \<and> parses py (miss_distance ca) ''kilometers'')"

section \<open>Concrete inputs\<close>

text \<open>
  Inputs on which the theorems below are instantiated. \<open>example_py\<close> converts the
  strings the examples use as \<^verbatim>\<open>float\<close> does, and formats every number as its format
  specification between angle brackets.
\<close>

definition example_py :: builtins where
  "example_py =
     \<lparr> py_float = (\<lambda>s. if s = ''17'' then Some 17 else if s = ''-3.5'' then Some (-3.5) else None),
       py_format = (\<lambda>spec x. ''<'' @ spec @ ''>'') \<rparr>"

definition example_neo :: "string \<Rightarrow> real \<Rightarrow> string \<Rightarrow> bool \<Rightarrow> raw_neo" where
  "example_neo nm d v hz =
     \<lparr> name = Some nm,
       estimated_diameter = Some [''kilometers'' \<mapsto> [''estimated_diameter_max'' \<mapsto> d]],
       close_approach_data =
         Some [\<lparr> relative_velocity = Some [''kilometers_per_second'' \<mapsto> v],
                 miss_distance = Some [''kilometers'' \<mapsto> ''17''] \<rparr>],
       is_potentially_hazardous_asteroid = Some hz \<rparr>"

text \<open>A feed of 12 records on two dates, with equal diameters among them.\<close>

definition example_dates :: "(string \<times> raw_neo list) list" where
  "example_dates =
     [(''2024-01-01'',
       [example_neo ''a'' 3 ''17'' True, example_neo ''b'' 1 ''17'' True,
        example_neo ''c'' 4 ''17'' True, example_neo ''d'' 1 ''17'' True,
        example_neo ''e'' 5 ''17'' True, example_neo ''f'' 9 ''17'' True]),
      (''2024-01-02'',
       [example_neo ''g'' 2 ''17'' True, example_neo ''h'' 6 ''17'' True,
        example_neo ''i'' 5 ''17'' True, example_neo ''j'' 3 ''17'' True,
        example_neo ''k'' 5 ''17'' True, example_neo ''l'' 8 ''17'' True])]"

section \<open>Binary64 arithmetic\<close>

text \<open>
  A second reading of the calculator follows the range and the rounding of Python's
  floats, which are IEEE 754 binary64 numbers: a float is a finite number, an infinity
  or NaN. The two zeros of binary64 are not told apart (they are equal for \<^verbatim>\<open>==\<close>).
\<close>

datatype pyfloat = Finite real | PosInf | NegInf | NaN

text \<open>
  Rounding to nearest, ties to even, with 53 significant bits and the least exponent
  of binary64 (subnormal numbers are multiples of \<open>2^-1074\<close>); the exponent is not
  bounded above here.
\<close>

definition ulp_exponent :: "real \<Rightarrow> int" where
  "ulp_exponent x = max \<lfloor>log 2 \<bar>x\<bar>\<rfloor> (- 1022) - 52"

definition round_even :: "real \<Rightarrow> int" where
  "round_even t =
     (if t - real_of_int \<lfloor>t\<rfloor> < 1 / 2 then \<lfloor>t\<rfloor>
      else if 1 / 2 < t - real_of_int \<lfloor>t\<rfloor> then \<lfloor>t\<rfloor> + 1
      else if even \<lfloor>t\<rfloor> then \<lfloor>t\<rfloor> else \<lfloor>t\<rfloor> + 1)"

definition rnd :: "real \<Rightarrow> real" where
  "rnd x =
     (if x = 0 then 0
      else real_of_int (round_even (x / 2 powr real_of_int (ulp_exponent x)))
             * 2 powr real_of_int (ulp_exponent x))"

text \<open>A rounded result of magnitude \<open>2^1024\<close> or more overflows to an infinity.\<close>

definition to_pyfloat :: "real \<Rightarrow> pyfloat" where
  "to_pyfloat r =
     (if 2 ^ 1024 \<le> r then PosInf else if r \<le> - (2 ^ 1024) then NegInf else Finite r)"

definition round_to_pyfloat :: "real \<Rightarrow> pyfloat" where
  "round_to_pyfloat x = to_pyfloat (rnd x)"

text \<open>\<^verbatim>\<open>x * y\<close> on floats: it raises nothing.\<close>

fun fmul :: "pyfloat \<Rightarrow> pyfloat \<Rightarrow> pyfloat" where
  "fmul NaN y = NaN"
| "fmul x NaN = NaN"
| "fmul (Finite a) (Finite b) = round_to_pyfloat (a * b)"
| "fmul (Finite a) PosInf = (if a = 0 then NaN else if 0 < a then PosInf else NegInf)"
| "fmul (Finite a) NegInf = (if a = 0 then NaN else if 0 < a then NegInf else PosInf)"
| "fmul PosInf (Finite b) = (if b = 0 then NaN else if 0 < b then PosInf else NegInf)"
| "fmul NegInf (Finite b) = (if b = 0 then NaN else if 0 < b then NegInf else PosInf)"
| "fmul PosInf PosInf = PosInf"
| "fmul PosInf NegInf = NegInf"
| "fmul NegInf PosInf = NegInf"
| "fmul NegInf NegInf = PosInf"

text \<open>\<^verbatim>\<open>x / y\<close> on floats: a divisor equal to 0 raises \<^verbatim>\<open>ZeroDivisionError\<close>.\<close>

fun fdiv :: "pyfloat \<Rightarrow> pyfloat \<Rightarrow> error + pyfloat" where
  "fdiv x (Finite b) =
     (if b = 0 then Inl ZeroDivisionError
      else Inr (case x of
                  Finite a \<Rightarrow> round_to_pyfloat (a / b)
                | PosInf \<Rightarrow> (if 0 < b then PosInf else NegInf)
                | NegInf \<Rightarrow> (if 0 < b then NegInf else PosInf)
                | NaN \<Rightarrow> NaN))"
| "fdiv (Finite a) PosInf = Inr (Finite 0)"
| "fdiv (Finite a) NegInf = Inr (Finite 0)"
| "fdiv x y = Inr NaN"

fun fneg :: "pyfloat \<Rightarrow> pyfloat" where
  "fneg (Finite a) = Finite (- a)"
| "fneg PosInf = NegInf"
| "fneg NegInf = PosInf"
| "fneg NaN = NaN"

text \<open>
  The C library's \<^verbatim>\<open>pow\<close> on a positive finite base other than 1 and a finite exponent
  other than 0: the value returned and whether it has set \<^verbatim>\<open>errno\<close> to \<^verbatim>\<open>ERANGE\<close>. Its
  rounding differs between platforms, so it is a parameter.
\<close>

type_synonym libm_pow = "real \<Rightarrow> real \<Rightarrow> pyfloat \<times> bool"

text \<open>
  A value of the calculator in this reading: a float, or no float at all (the complex
  number that \<^verbatim>\<open>**\<close> returns on a negative base and a fractional exponent, which is not
  followed further).
\<close>

datatype fnum = Float pyfloat | NotFloat

definition is_odd_integer :: "real \<Rightarrow> bool" where
  "is_odd_integer w = (w \<in> \<int> \<and> odd \<lfloor>w\<rfloor>)"

text \<open>
  \<^verbatim>\<open>v ** w\<close> for a float \<open>v\<close> and a finite exponent \<open>w\<close>, as CPython's \<^verbatim>\<open>float_pow\<close> decides
  it: the special cases first, then the C library; a result that is infinite, or not 0
  with \<^verbatim>\<open>ERANGE\<close> set, raises \<^verbatim>\<open>OverflowError\<close>.
\<close>

definition float_pow :: "libm_pow \<Rightarrow> pyfloat \<Rightarrow> real \<Rightarrow> error + fnum" where
  "float_pow libm v w =
     (if w = 0 then Inr (Float (Finite 1))
      else case v of
        NaN \<Rightarrow> Inr (Float NaN)
      | PosInf \<Rightarrow> Inr (Float (if 0 < w then PosInf else Finite 0))
      | NegInf \<Rightarrow>
          Inr (Float (if 0 < w then (if is_odd_integer w then NegInf else PosInf)
                      else Finite 0))
      | Finite a \<Rightarrow>
          if a = 0 then (if w < 0 then Inl ZeroDivisionError else Inr (Float (Finite 0)))
          else if a < 0 \<and> w \<notin> \<int> then Inr NotFloat
          else if \<bar>a\<bar> = 1
            then Inr (Float (Finite (if a < 0 \<and> is_odd_integer w then - 1 else 1)))
          else (case libm \<bar>a\<bar> w of
                  (r, erange) \<Rightarrow>
                    if r = PosInf \<or> r = NegInf \<or> (erange \<and> r \<noteq> Finite 0)
                    then Inl OverflowError
                    else Inr (Float (if a < 0 \<and> is_odd_integer w then fneg r else r))))"

fun fnum_pow :: "libm_pow \<Rightarrow> fnum \<Rightarrow> real \<Rightarrow> error + fnum" where
  "fnum_pow libm (Float v) w = float_pow libm v w"
| "fnum_pow libm NotFloat w = Inr NotFloat"

fun fnum_mul :: "fnum \<Rightarrow> fnum \<Rightarrow> fnum" where
  "fnum_mul (Float x) (Float y) = Float (fmul x y)"
| "fnum_mul x y = NotFloat"

fun fnum_div :: "fnum \<Rightarrow> pyfloat \<Rightarrow> error + fnum" where
  "fnum_div (Float x) y = (case fdiv x y of Inl e \<Rightarrow> Inl e | Inr q \<Rightarrow> Inr (Float q))"
| "fnum_div NotFloat y = Inr NotFloat"

text \<open>\<^verbatim>\<open>math.pi\<close>, the float nearest to \<open>\<pi>\<close>.\<close>

definition pi_float :: real where
  "pi_float = 884279719003555 / 2 ^ 48"

record float_effects =
  crater_diameter_f :: fnum
  energy_megatons_f :: fnum
  severe_damage_radius_f :: fnum
  moderate_damage_radius_f :: fnum
  light_damage_radius_f :: fnum

text \<open>
  Lines 33 to 50 on floats. The literals \<^verbatim>\<open>0.43\<close>, \<^verbatim>\<open>0.33\<close> and \<^verbatim>\<open>2.2\<close> are the floats
  nearest to them; the other constants are floats as they stand. Only \<^verbatim>\<open>**\<close> can raise,
  and the four powers are computed in the order of the lines.
\<close>

definition calculate_impact_effects_float ::
  "libm_pow \<Rightarrow> pyfloat \<Rightarrow> pyfloat \<Rightarrow> error + float_effects" where
  "calculate_impact_effects_float libm diameter velocity =
     and_then (fdiv velocity (Finite 17)) (\<lambda>ratio.
     and_then (float_pow libm ratio (rnd 0.43)) (\<lambda>scale.
     and_then (fdiv (Finite 4) (Finite 3)) (\<lambda>four_thirds.
     and_then (float_pow libm (fmul diameter (Finite 500)) 3) (\<lambda>cube.
     and_then (float_pow libm (fmul velocity (Finite 1000)) 2) (\<lambda>square.
     and_then (fnum_div
                (fnum_mul
                  (fnum_mul (Float (Finite 0.5))
                    (fnum_mul (fnum_mul (Float (fmul four_thirds (Finite pi_float))) cube)
                       (Float (Finite 2500))))
                  square)
                (Finite (4.184 * 10 ^ 15))) (\<lambda>megatons.
     and_then (fnum_pow libm megatons (rnd 0.33)) (\<lambda>base.
     Inr \<lparr> crater_diameter_f = fnum_mul (Float (fmul diameter (Finite 20))) scale,
           energy_megatons_f = megatons,
           severe_damage_radius_f = fnum_mul base (Float (Finite (rnd 2.2))),
           moderate_damage_radius_f = fnum_mul base (Float (Finite 5.5)),
           light_damage_radius_f = fnum_mul base (Float (Finite 15)) \<rparr>)))))))"

text \<open>\<^verbatim>\<open>x <= y\<close> and \<^verbatim>\<open>x < y\<close> on floats: false when either is NaN.\<close>

fun fle :: "pyfloat \<Rightarrow> pyfloat \<Rightarrow> bool" where
  "fle NaN y = False"
| "fle x NaN = False"
| "fle NegInf y = True"
| "fle x PosInf = True"
| "fle (Finite a) (Finite b) = (a \<le> b)"
| "fle x y = False"

fun flt :: "pyfloat \<Rightarrow> pyfloat \<Rightarrow> bool" where
  "flt NaN y = False"
| "flt x NaN = False"
| "flt (Finite a) (Finite b) = (a < b)"
| "flt NegInf NegInf = False"
| "flt PosInf y = False"
| "flt NegInf y = True"
| "flt x PosInf = True"
| "flt x NegInf = False"

text \<open>
  What the theorems ask of the C library's \<^verbatim>\<open>pow\<close>: on a positive base it returns a
  number that is not negative, or \<open>+\<infinity>\<close>; where the true power is below \<open>2^1023\<close> the
  result is finite, with \<^verbatim>\<open>ERANGE\<close> set only on a result of 0; and where the true power
  is also at least \<open>2^-1021\<close> the result is within a factor 2 of it.
\<close>

definition libm_sound :: "libm_pow \<Rightarrow> bool" where
  "libm_sound libm =
     (\<forall>a w. 0 < a \<longrightarrow>
        (\<exists>r erange. libm a w = (r, erange)
           \<and> (r = PosInf \<or> (\<exists>x. r = Finite x \<and> 0 \<le> x \<and> x < 2 ^ 1024))
           \<and> (a powr w < 2 ^ 1023 \<longrightarrow>
                (\<exists>x. r = Finite x \<and> (erange \<longrightarrow> x = 0)
                   \<and> (2 powr (- 1021) \<le> a powr w \<longrightarrow> a powr w / 2 \<le> x \<and> x \<le> 2 * a powr w)))))"

text \<open>A \<^verbatim>\<open>pow\<close> that is correctly rounded and never sets \<^verbatim>\<open>ERANGE\<close>.\<close>

definition example_libm :: libm_pow where
  "example_libm a w = (round_to_pyfloat (a powr w), False)"

section \<open>Properties of the calculator\<close>


section \<open>Properties of the ranking\<close>

lemma map_err_all_Inr:
  assumes "\<forall>x\<in>set xs. f x = Inr (g x)"
  shows "map_err f xs = Inr (map g xs)"
  using assms by (induction xs) simp_all

lemma insort_key_decorated:
  "insort_key f (g x) (map g ys) = map g (insort_key (\<lambda>y. f (g y)) x ys)"
  by (induction ys) simp_all

lemma sort_key_decorated:
  "sort_key f (map g ys) = map g (sort_key (\<lambda>y. f (g y)) ys)"
  by (induction ys) (simp_all add: insort_key_decorated)

lemma list_sort_decorated:
  "map snd (list_sort fst True (zip (map d xs) xs)) = list_sort d True xs"
proof -
  have "zip (map d xs) xs = map (\<lambda>x. (d x, x)) xs"
    by (induction xs) simp_all
  moreover have "rev (map (\<lambda>x. (d x, x)) xs) = map (\<lambda>x. (d x, x)) (rev xs)"
    by (simp add: rev_map)
  ultimately show ?thesis
    by (simp add: list_sort_def sort_key_decorated rev_map comp_def)
qed

lemma sort_by_diameter_eq:
  assumes "\<forall>x\<in>set xs. diameter_max x = Inr (d x)"
  shows "sort_by_diameter xs = Inr (list_sort d True xs)"
  by (simp add: sort_by_diameter_def map_err_all_Inr [OF assms] list_sort_decorated)

lemma mset_list_sort: "mset (list_sort d True xs) = mset xs"
  by (simp add: list_sort_def)

lemma list_sort_descending: "sorted_wrt (\<lambda>a b. d b \<le> d a) (list_sort d True xs)"
proof -
  have "sorted (map d (sort_key d (rev xs)))"
    by simp
  then have "sorted_wrt (\<lambda>a b. d a \<le> d b) (sort_key d (rev xs))"
    by (simp add: sorted_map)
  then show ?thesis
    by (simp add: list_sort_def sorted_wrt_rev)
qed

lemma list_sort_stable:
  "filter (\<lambda>x. d x = k) (list_sort d True xs) = filter (\<lambda>x. d x = k) xs"
  by (simp add: list_sort_def rev_filter [symmetric] sort_key_stable del: rev_filter)

text \<open>
  A permutation of the input that is in descending order of the key and keeps elements
  of equal keys in their input order is the sorted list: the three properties determine
  the result of a stable descending sort.
\<close>

lemma stable_descending_unique:
  assumes perm: "mset T = mset xs"
    and desc: "sorted_wrt (\<lambda>a b. d b \<le> d a) T"
    and stable: "\<And>k. filter (\<lambda>x. d x = k) T = filter (\<lambda>x. d x = k) xs"
  shows "T = list_sort d True xs"
proof -
  have key: "sort_key (\<lambda>x. - d x) xs = S"
    if "mset S = mset xs" and "sorted_wrt (\<lambda>a b. d b \<le> d a) S"
      and "\<And>k. filter (\<lambda>x. d x = k) S = filter (\<lambda>x. d x = k) xs" for S
  proof (rule properties_for_sort_key)
    show "mset S = mset xs" by (rule that(1))
    show "sorted (map (\<lambda>x. - d x) S)"
      using that(2) by (simp add: sorted_map)
    show "filter (\<lambda>x. - d k = - d x) S = filter (\<lambda>x. - d k = - d x) xs" for k
      using that(3) [of "d k"] by (simp add: eq_commute)
  qed
  have "sort_key (\<lambda>x. - d x) xs = T"
    using perm desc stable by (rule key)
  moreover have "sort_key (\<lambda>x. - d x) xs = list_sort d True xs"
    by (rule key) (simp_all add: mset_list_sort list_sort_descending list_sort_stable)
  ultimately show ?thesis by simp
qed

lemma sorted_wrt_take_prefix:
  assumes "sorted_wrt P xs"
  shows "sorted_wrt P (take n xs)"
proof -
  have "sorted_wrt P (take n xs @ drop n xs)"
    using assms by simp
  then show ?thesis
    unfolding sorted_wrt_append by blast
qed

text \<open>
  Claim C2. For every feed whose records all have the diameter (\<open>d\<close> reads it), with
  \<open>L\<close> records in all, the sort of line 68 succeeds with a list \<open>S\<close> that is the stable
  sort of the records by the diameter in descending order: a permutation of the input,
  with diameters that do not increase, in which the records of any one diameter stand in
  their input order (and \<open>S\<close> is the only such list). The pipeline then prints the count
  \<open>L\<close> and runs its loop on exactly the first \<open>min 10 L\<close> elements of \<open>S\<close>, numbered from
  0 in this order: their diameters do not increase, and the selected records of any one
  diameter are an initial part of the input's records of that diameter, in the input's
  order.
\<close>

theorem ranker_top_ten:
  assumes "\<forall>x\<in>set (concat (map snd by_date)). diameter_max x = Inr (d x)"
  shows "\<exists>S. sort_by_diameter (concat (map snd by_date)) = Inr S
           \<and> mset S = mset (concat (map snd by_date))
           \<and> sorted_wrt (\<lambda>a b. d b \<le> d a) S
           \<and> (\<forall>k. filter (\<lambda>x. d x = k) S = filter (\<lambda>x. d x = k) (concat (map snd by_date)))
           \<and> (\<forall>T. mset T = mset (concat (map snd by_date))
                  \<and> sorted_wrt (\<lambda>a b. d b \<le> d a) T
                  \<and> (\<forall>k. filter (\<lambda>x. d x = k) T
                          = filter (\<lambda>x. d x = k) (concat (map snd by_date)))
                \<longrightarrow> T = S)
           \<and> create_impact_map py
                 (Some \<lparr> element_count = n_elements, near_earth_objects = Some (Dict by_date) \<rparr>)
                 out
               = loop py
                   (enumerate 0 (take (min 10 (length (concat (map snd by_date)))) S))
                   new_map
                   (print (newline @ ''Found '' @ str_nat (length (concat (map snd by_date)))
                             @ '' Near Earth Objects. Showing top 10 by size:'' @ newline) out)
           \<and> length (take (min 10 (length (concat (map snd by_date)))) S)
               = min 10 (length (concat (map snd by_date)))
           \<and> sorted_wrt (\<lambda>a b. d b \<le> d a)
                (take (min 10 (length (concat (map snd by_date)))) S)
           \<and> (\<forall>k. prefix
                  (filter (\<lambda>x. d x = k) (take (min 10 (length (concat (map snd by_date)))) S))
                  (filter (\<lambda>x. d x = k) (concat (map snd by_date))))"
proof -
  let ?all = "concat (map snd by_date)"
  let ?S = "list_sort d True ?all"
  let ?n = "min 10 (length ?all)"
  have run: "sort_by_diameter ?all = Inr ?S"
    using assms by (rule sort_by_diameter_eq)
  have perm: "mset ?S = mset ?all"
    by (rule mset_list_sort)
  have desc: "sorted_wrt (\<lambda>a b. d b \<le> d a) ?S"
    by (rule list_sort_descending)
  have stable: "filter (\<lambda>x. d x = k) ?S = filter (\<lambda>x. d x = k) ?all" for k
    by (rule list_sort_stable)
  have unique: "T = ?S"
    if "mset T = mset ?all \<and> sorted_wrt (\<lambda>a b. d b \<le> d a) T
        \<and> (\<forall>k. filter (\<lambda>x. d x = k) T = filter (\<lambda>x. d x = k) ?all)" for T
    using that by (intro stable_descending_unique) simp_all
  have len: "length ?S = length ?all"
    using perm by (metis size_mset)
  have cut: "take 10 ?S = take ?n ?S"
    using len by (simp add: min_def)
  have pipeline: "create_impact_map py
        (Some \<lparr> element_count = n_elements, near_earth_objects = Some (Dict by_date) \<rparr>) out
      = loop py (enumerate 0 (take ?n ?S)) new_map
          (print (newline @ ''Found '' @ str_nat (length ?all)
                    @ '' Near Earth Objects. Showing top 10 by size:'' @ newline) out)"
    by (simp only: create_impact_map_def Let_def option.case dated_objects.case sum.case
        feed.simps run len cut)
  have len_top: "length (take ?n ?S) = ?n"
    using len by simp
  have desc_top: "sorted_wrt (\<lambda>a b. d b \<le> d a) (take ?n ?S)"
    using desc by (rule sorted_wrt_take_prefix)
  have stable_top:
    "prefix (filter (\<lambda>x. d x = k) (take ?n ?S)) (filter (\<lambda>x. d x = k) ?all)" for k
    using filter_mono_prefix [OF take_is_prefix, of "\<lambda>x. d x = k" ?n ?S]
    by (simp only: stable)
  from run perm desc stable unique pipeline len_top desc_top stable_top
  show ?thesis by blast
qed

lemma diameter_max_example: "diameter_max (example_neo nm x v hz) = Inr x"
  by (simp add: diameter_max_def and_then_def getkey_def getitem_def example_neo_def)

theorem ranker_top_ten_witness:
  "map diameter_max (concat (map snd example_dates))
     = map Inr [3, 1, 4, 1, 5, 9, 2, 6, 5, 3, 5, 8]
   \<and> sort_by_diameter (concat (map snd example_dates))
     = Inr [example_neo ''f'' 9 ''17'' True, example_neo ''l'' 8 ''17'' True,
            example_neo ''h'' 6 ''17'' True, example_neo ''e'' 5 ''17'' True,
            example_neo ''i'' 5 ''17'' True, example_neo ''k'' 5 ''17'' True,
            example_neo ''c'' 4 ''17'' True, example_neo ''a'' 3 ''17'' True,
            example_neo ''j'' 3 ''17'' True, example_neo ''g'' 2 ''17'' True,
            example_neo ''b'' 1 ''17'' True, example_neo ''d'' 1 ''17'' True]
   \<and> create_impact_map example_py
       (Some \<lparr> element_count = Some 12, near_earth_objects = Some (Dict example_dates) \<rparr>) []
     = loop example_py
         (enumerate 0
           [example_neo ''f'' 9 ''17'' True, example_neo ''l'' 8 ''17'' True,
            example_neo ''h'' 6 ''17'' True, example_neo ''e'' 5 ''17'' True,
            example_neo ''i'' 5 ''17'' True, example_neo ''k'' 5 ''17'' True,
            example_neo ''c'' 4 ''17'' True, example_neo ''a'' 3 ''17'' True,
            example_neo ''j'' 3 ''17'' True, example_neo ''g'' 2 ''17'' True])
         new_map
         (print (newline @ ''Found '' @ str_nat 12
                   @ '' Near Earth Objects. Showing top 10 by size:'' @ newline) [])"
proof -
  let ?all = "concat (map snd example_dates)"
  let ?d = "\<lambda>x. case diameter_max x of Inl e \<Rightarrow> 0 | Inr r \<Rightarrow> r"
  let ?sorted = "[example_neo ''f'' 9 ''17'' True, example_neo ''l'' 8 ''17'' True,
            example_neo ''h'' 6 ''17'' True, example_neo ''e'' 5 ''17'' True,
            example_neo ''i'' 5 ''17'' True, example_neo ''k'' 5 ''17'' True,
            example_neo ''c'' 4 ''17'' True, example_neo ''a'' 3 ''17'' True,
            example_neo ''j'' 3 ''17'' True, example_neo ''g'' 2 ''17'' True,
            example_neo ''b'' 1 ''17'' True, example_neo ''d'' 1 ''17'' True]"
  have keys: "map diameter_max ?all = map Inr [3, 1, 4, 1, 5, 9, 2, 6, 5, 3, 5, 8]"
    by (simp add: example_dates_def diameter_max_example)
  have all: "\<forall>x\<in>set ?all. diameter_max x = Inr (?d x)"
    by (simp add: example_dates_def diameter_max_example)
  have sorted: "sort_by_diameter ?all = Inr ?sorted"
    by (simp add: example_dates_def sort_by_diameter_def list_sort_def diameter_max_example)
  have count: "length ?all = 12"
    by (simp add: example_dates_def)
  from ranker_top_ten [OF all, of example_py "Some 12" "[]"] sorted count
  have "create_impact_map example_py
       (Some \<lparr> element_count = Some 12, near_earth_objects = Some (Dict example_dates) \<rparr>) []
     = loop example_py (enumerate 0 (take 10 ?sorted)) new_map
         (print (newline @ ''Found '' @ str_nat 12
                   @ '' Near Earth Objects. Showing top 10 by size:'' @ newline) [])"
    by auto
  with keys sorted show ?thesis
    by simp
qed

section \<open>Properties of the impact sites\<close>

text \<open>
  Claim C5. The list of the locations has 10 entries, in the order New York, Los
  Angeles, London, Tokyo, Paris, Sydney, Mexico City, Moscow, Delhi, Beijing; the site
  of a rank is the entry at \<open>rank mod 10\<close>, so the ranks \<open>rank\<close> and \<open>rank + 10\<close> have
  the same site.
\<close>

theorem site_for_cyclic:
  "length locations = 10
   \<and> map site_for [0..<10] =
       [(40.7128, -74.0060), (34.0522, -118.2437), (51.5074, -0.1278), (35.6762, 139.6503),
        (48.8566, 2.3522), (-33.8688, 151.2093), (19.4326, -99.1332), (55.7558, 37.6173),
        (28.6139, 77.2090), (39.9042, 116.4074)]
   \<and> site_for rank = locations ! (rank mod 10)
   \<and> site_for (rank + 10) = site_for rank"
proof -
  have len: "length locations = 10"
    by (simp add: locations_def)
  have upt: "[0..<10] = [0, 1, 2, 3, 4, 5, 6, 7, 8, 9 :: nat]"
    by (simp add: upt_rec)
  have first: "map site_for [0..<10] = locations"
    unfolding upt by (simp add: site_for_def len) (simp add: locations_def)
  show ?thesis
    using len first by (simp add: site_for_def) (simp add: locations_def)
qed

section \<open>Properties of the extraction\<close>

lemmas lookup_defs = and_then_def getkey_def getitem_def getitem0_def to_float_def
  diameter_max_def first_approach_def

lemma extract_fails_without_keys:
  assumes "\<not> required_keys_present neo"
  shows "\<exists>e. extract_fields py neo = Inl e"
  using assms
  by (auto simp: extract_fields_def lookup_defs required_keys_present_def has_key_def
      split: option.splits list.splits)

lemma extract_key_error:
  assumes "\<not> required_keys_present neo" and "close_approach_data neo \<noteq> Some []"
    and "numeric_strings_parse py neo"
  shows "\<exists>k. extract_fields py neo = Inl (KeyError k)"
  using assms
  by (auto simp: extract_fields_def lookup_defs required_keys_present_def has_key_def
      numeric_strings_parse_def parses_def
      split: option.splits list.splits)

lemma extract_succeeds:
  assumes "required_keys_present neo" and "numeric_strings_parse py neo"
  shows "\<exists>n. extract_fields py neo = Inr n"
  using assms
  by (auto simp: extract_fields_def lookup_defs required_keys_present_def has_key_def
      numeric_strings_parse_def parses_def
      split: option.splits list.splits)

lemma extract_values:
  assumes "extract_fields py neo = Inr n"
  shows "name neo = Some (neo_name n) \<and> diameter_max neo = Inr (diameter_km n)
     \<and> (\<exists>ca rv vs md ms.
           first_approach neo = Inr ca
         \<and> relative_velocity ca = Some rv \<and> rv ''kilometers_per_second'' = Some vs
         \<and> py_float py vs = Some (velocity_kmps n)
         \<and> miss_distance ca = Some md \<and> md ''kilometers'' = Some ms
         \<and> py_float py ms = Some (miss_distance_km n))
     \<and> is_potentially_hazardous_asteroid neo = Some (hazardous n)"
  using assms
  by (auto simp: extract_fields_def lookup_defs split: option.splits list.splits)

lemma loop_body_failure:
  assumes "extract_fields py neo = Inl e"
  shows "loop_body py idx neo m out = (Inl e, out)"
  using assms by (simp add: loop_body_def)

text \<open>
  Claim C3, as the code has it. The extraction of lines 88 to 92 fails whenever a
  required key is absent, and then with \<^verbatim>\<open>KeyError\<close> when \<open>close_approach_data\<close> is not
  the empty list and the numeric strings that are present are numbers (otherwise
  \<^verbatim>\<open>IndexError\<close> or \<^verbatim>\<open>ValueError\<close> may come first). It validates nothing: a record with
  all required keys and numeric strings that are numbers is returned with the values
  read, whatever the sign of the diameter and of the velocity. A failing extraction
  leaves the map and the standard output as they were.
\<close>

theorem extraction_outcomes:
  "(\<not> required_keys_present neo \<longrightarrow> (\<exists>e. extract_fields py neo = Inl e))
   \<and> (\<not> required_keys_present neo \<and> close_approach_data neo \<noteq> Some []
        \<and> numeric_strings_parse py neo
      \<longrightarrow> (\<exists>k. extract_fields py neo = Inl (KeyError k)))
   \<and> (required_keys_present neo \<and> numeric_strings_parse py neo
      \<longrightarrow> (\<exists>n. extract_fields py neo = Inr n))
   \<and> (\<forall>n. extract_fields py neo = Inr n
      \<longrightarrow> name neo = Some (neo_name n) \<and> diameter_max neo = Inr (diameter_km n)
          \<and> (\<exists>ca rv vs md ms.
                first_approach neo = Inr ca
              \<and> relative_velocity ca = Some rv \<and> rv ''kilometers_per_second'' = Some vs
              \<and> py_float py vs = Some (velocity_kmps n)
              \<and> miss_distance ca = Some md \<and> md ''kilometers'' = Some ms
              \<and> py_float py ms = Some (miss_distance_km n))
          \<and> is_potentially_hazardous_asteroid neo = Some (hazardous n))
   \<and> (\<forall>e. extract_fields py neo = Inl e \<longrightarrow> loop_body py idx neo m out = (Inl e, out))"
  using extract_fails_without_keys [of neo py] extract_key_error [of neo py]
    extract_succeeds [of neo py] extract_values [of py neo]
    loop_body_failure [of py neo _ idx m out]
  by blast

text \<open>
  A record with the diameter 0 and the velocity -3.5 has all required keys; the
  extraction returns it and raises nothing.
\<close>

theorem extraction_accepts_nonpositive:
  "extract_fields example_py (example_neo ''A'' 0 ''-3.5'' True) =
     Inr \<lparr> neo_name = ''A'', diameter_km = 0, velocity_kmps = - 3.5,
           miss_distance_km = 17, hazardous = True \<rparr>"
  by (simp add: extract_fields_def lookup_defs example_py_def example_neo_def)

theorem extraction_outcomes_witness:
  "\<not> required_keys_present ((example_neo ''A'' 1 ''17'' True)\<lparr>name := None\<rparr>)
   \<and> close_approach_data ((example_neo ''A'' 1 ''17'' True)\<lparr>name := None\<rparr>) \<noteq> Some []
   \<and> numeric_strings_parse example_py ((example_neo ''A'' 1 ''17'' True)\<lparr>name := None\<rparr>)
   \<and> extract_fields example_py ((example_neo ''A'' 1 ''17'' True)\<lparr>name := None\<rparr>)
       = Inl (KeyError ''name'')
   \<and> loop_body example_py 0 ((example_neo ''A'' 1 ''17'' True)\<lparr>name := None\<rparr>) new_map []
       = (Inl (KeyError ''name''), [])
   \<and> required_keys_present (example_neo ''A'' 0 ''-3.5'' True)
   \<and> numeric_strings_parse example_py (example_neo ''A'' 0 ''-3.5'' True)
   \<and> (\<exists>n. extract_fields example_py (example_neo ''A'' 0 ''-3.5'' True) = Inr n
          \<and> diameter_km n = 0 \<and> velocity_kmps n = - 3.5)"
proof -
  let ?bad = "(example_neo ''A'' 1 ''17'' True)\<lparr>name := None\<rparr>"
  let ?zero = "example_neo ''A'' 0 ''-3.5'' True"
  have absent: "\<not> required_keys_present ?bad"
    by (simp add: required_keys_present_def)
  have approach: "close_approach_data ?bad \<noteq> Some []"
    by (simp add: example_neo_def)
  have numbers: "numeric_strings_parse example_py ?bad"
    by (simp add: numeric_strings_parse_def parses_def example_neo_def example_py_def)
  have error: "extract_fields example_py ?bad = Inl (KeyError ''name'')"
    by (simp add: extract_fields_def lookup_defs)
  have present: "required_keys_present ?zero"
    by (simp add: required_keys_present_def has_key_def example_neo_def)
  have numbers': "numeric_strings_parse example_py ?zero"
    by (simp add: numeric_strings_parse_def parses_def example_neo_def example_py_def)
  have reads: "diameter_max ?zero = Inr 0" "py_float example_py ''-3.5'' = Some (- 3.5)"
    "first_approach ?zero = Inr \<lparr> relative_velocity = Some [''kilometers_per_second'' \<mapsto> ''-3.5''],
       miss_distance = Some [''kilometers'' \<mapsto> ''17''] \<rparr>"
    by (simp_all add: lookup_defs example_neo_def example_py_def)
  from extraction_outcomes [of ?bad example_py 0 new_map "[]"] absent approach numbers error
  have failing: "loop_body example_py 0 ?bad new_map [] = (Inl (KeyError ''name''), [])"
    by blast
  from extraction_outcomes [of ?zero example_py] present numbers'
  obtain n where n: "extract_fields example_py ?zero = Inr n"
    by blast
  with extraction_outcomes [of ?zero example_py] reads
  have "diameter_km n = 0 \<and> velocity_kmps n = - 3.5"
    by auto
  with n absent approach numbers error failing present numbers' show ?thesis
    by blast
qed

section \<open>Properties of the overlays\<close>

text \<open>
  Claim C4. For every record whose extraction succeeds, one iteration of the loop adds
  to the map exactly 5 overlays, in the order crater circle, severe-damage circle,
  moderate-damage circle, light-damage circle, marker, all located at the site of the
  rank. The radius of the crater circle is the crater diameter times 500, the radii of
  the damage circles are the severe, moderate and light damage radii times 1000, and the
  icon of the marker is red for a hazardous object and blue otherwise. The crater circle
  and the marker carry the same popup.
\<close>

theorem overlay_builder:
  assumes "extract_fields py neo = Inr n"
  shows "\<exists>m' out' crater severe moderate light marker.
           loop_body py idx neo m out = (Inr m', out')
         \<and> children m' = children m @ [crater, severe, moderate, light, marker]
         \<and> is_circle crater \<and> is_circle severe \<and> is_circle moderate \<and> is_circle light
         \<and> is_marker marker
         \<and> map location [crater, severe, moderate, light, marker] = replicate 5 (site_for idx)
         \<and> radius crater =
             py_mul (crater_diameter (calculate_impact_effects (diameter_km n) (velocity_kmps n)))
               (PyFloat 500)
         \<and> radius severe =
             py_mul (severe_damage_radius (calculate_impact_effects (diameter_km n) (velocity_kmps n)))
               (PyFloat 1000)
         \<and> radius moderate =
             py_mul (moderate_damage_radius (calculate_impact_effects (diameter_km n) (velocity_kmps n)))
               (PyFloat 1000)
         \<and> radius light =
             py_mul (light_damage_radius (calculate_impact_effects (diameter_km n) (velocity_kmps n)))
               (PyFloat 1000)
         \<and> icon_color (icon marker) = (if hazardous n then ''red'' else ''blue'')
         \<and> popup crater =
             Some (Popup (popup_html py n
               (calculate_impact_effects (diameter_km n) (velocity_kmps n))) 300)
         \<and> popup marker = popup crater
         \<and> tooltip crater = neo_name n @ '' - Crater'' \<and> tooltip marker = neo_name n"
  using assms
  by (simp add: loop_body_def add_overlays_def add_to_def Let_def eval_nat_numeral)

theorem overlay_builder_witness:
  "extract_fields example_py (example_neo ''A'' (1 / 2) ''17'' True) =
     Inr \<lparr> neo_name = ''A'', diameter_km = 1 / 2, velocity_kmps = 17,
           miss_distance_km = 17, hazardous = True \<rparr>
   \<and> (\<exists>m' out' crater severe moderate light marker.
         loop_body example_py 3 (example_neo ''A'' (1 / 2) ''17'' True) new_map [] = (Inr m', out')
       \<and> children m' = [crater, severe, moderate, light, marker]
       \<and> map location [crater, severe, moderate, light, marker]
           = replicate 5 (35.6762, 139.6503)
       \<and> radius crater = PyFloat 5000
       \<and> icon_color (icon marker) = ''red'')"
proof -
  let ?n = "\<lparr> neo_name = ''A'', diameter_km = 1 / 2, velocity_kmps = 17,
               miss_distance_km = 17, hazardous = True \<rparr>"
  have ok: "extract_fields example_py (example_neo ''A'' (1 / 2) ''17'' True) = Inr ?n"
    by (simp add: extract_fields_def lookup_defs example_py_def example_neo_def)
  have site: "site_for 3 = (35.6762, 139.6503)"
    by (simp add: site_for_def locations_def)
  have crater: "py_mul (crater_diameter (calculate_impact_effects (1 / 2) 17)) (PyFloat 500)
                  = PyFloat 5000"
    by (simp add: calculate_impact_effects_def Let_def py_pow_def)
  from overlay_builder [OF ok, of 3 new_map "[]"] ok site crater show ?thesis
    by (auto simp: new_map_def)
qed

section \<open>Properties of the pipeline on empty and missing input\<close>

text \<open>
  Claim C7, as the code has it. When the argument is \<open>None\<close>, or a dictionary without
  the key \<open>near_earth_objects\<close> (the empty dictionary is one), the pipeline raises
  nothing, returns the new map with no overlay and prints the notice that no data is
  available, which states no count. When \<open>near_earth_objects\<close> is an empty dictionary,
  or holds no object under any of its dates, the pipeline raises nothing, returns the
  new map with no overlay and prints the report that 0 objects were found.
\<close>

theorem empty_input_no_crash:
  "create_impact_map py None out = (Inr new_map, out @ ''No NEO data available'' @ newline)
   \<and> create_impact_map py (Some \<lparr> element_count = n_elements, near_earth_objects = None \<rparr>) out
       = (Inr new_map, out @ ''No NEO data available'' @ newline)
   \<and> create_impact_map py
         (Some \<lparr> element_count = n_elements, near_earth_objects = Some (Dict []) \<rparr>) out
       = (Inr new_map,
          out @ newline @ ''Found 0 Near Earth Objects. Showing top 10 by size:''
            @ newline @ newline)
   \<and> create_impact_map py
         (Some \<lparr> element_count = n_elements,
                 near_earth_objects = Some (Dict (map (\<lambda>date. (date, [])) dates)) \<rparr>) out
       = (Inr new_map,
          out @ newline @ ''Found 0 Near Earth Objects. Showing top 10 by size:''
            @ newline @ newline)
   \<and> children new_map = []"
proof -
  have zero: "str_nat 0 = ''0''"
    by (simp add: str_nat.simps digit_def)
  have none: "concat (map snd (map (\<lambda>date. (date, [])) dates)) = ([] :: raw_neo list)"
    by (induction dates) simp_all
  have sorted: "sort_by_diameter [] = Inr []"
    by (simp add: sort_by_diameter_def list_sort_def)
  show ?thesis
    by (simp add: create_impact_map_def Let_def print_def none sorted zero new_map_def
        del: map_map)
qed

text \<open>
  For \<open>None\<close> and for a dictionary without the key, the text printed is the notice
  alone: it is not the report of a count, and no \<open>0\<close> stands in it.
\<close>

theorem missing_input_prints_no_count:
  "create_impact_map example_py None [] = (Inr new_map, ''No NEO data available'' @ newline)
   \<and> create_impact_map example_py
         (Some \<lparr> element_count = Some 0, near_earth_objects = None \<rparr>) []
       = (Inr new_map, ''No NEO data available'' @ newline)
   \<and> ''No NEO data available'' @ newline
       \<noteq> newline @ ''Found 0 Near Earth Objects. Showing top 10 by size:'' @ newline @ newline
   \<and> CHR ''0'' \<notin> set (''No NEO data available'' @ newline)"
  by (simp add: create_impact_map_def Let_def print_def)

section \<open>Further properties of the pipeline\<close>

lemma add_overlays_children:
  "\<exists>crater severe moderate light marker.
     children (add_overlays n effects site popup_text m)
       = children m @ [crater, severe, moderate, light, marker]
   \<and> map location [crater, severe, moderate, light, marker] = replicate 5 site"
  by (simp add: add_overlays_def add_to_def Let_def eval_nat_numeral)

lemma loop_body_success:
  assumes "extract_fields py neo = Inr n"
  shows "\<exists>m' out'. loop_body py idx neo m out = (Inr m', out')
     \<and> map location (children m') = map location (children m) @ replicate 5 (site_for idx)"
proof -
  let ?e = "calculate_impact_effects (diameter_km n) (velocity_kmps n)"
  let ?m' = "add_overlays n ?e (site_for idx) (popup_html py n ?e) m"
  have "loop_body py idx neo m out = (Inr ?m', print_info py idx n ?e out)"
    using assms by (simp add: loop_body_def Let_def)
  moreover have "map location (children ?m') = map location (children m) @ replicate 5 (site_for idx)"
    using add_overlays_children [of n ?e "site_for idx" "popup_html py n ?e" m] by auto
  ultimately show ?thesis by blast
qed

lemma loop_success:
  assumes "\<forall>neo\<in>set neos. \<exists>n. extract_fields py neo = Inr n"
  shows "\<exists>m' out'. loop py (enumerate k neos) m out = (Inr m', out')
     \<and> map location (children m')
         = map location (children m)
           @ concat (map (\<lambda>i. replicate 5 (site_for i)) [k..<k + length neos])"
  using assms
proof (induction neos arbitrary: k m out)
  case Nil
  show ?case by simp
next
  case (Cons neo neos)
  from Cons.prems obtain n where "extract_fields py neo = Inr n"
    by auto
  from loop_body_success [OF this, of k m out]
  obtain m1 out1 where body: "loop_body py k neo m out = (Inr m1, out1)"
    and sites1: "map location (children m1) = map location (children m) @ replicate 5 (site_for k)"
    by blast
  from Cons.prems have "\<forall>neo\<in>set neos. \<exists>n. extract_fields py neo = Inr n"
    by simp
  from Cons.IH [OF this, of "Suc k" m1 out1]
  obtain m' out' where rest: "loop py (enumerate (Suc k) neos) m1 out1 = (Inr m', out')"
    and sites: "map location (children m')
         = map location (children m1)
           @ concat (map (\<lambda>i. replicate 5 (site_for i)) [Suc k..<Suc k + length neos])"
    by blast
  have "[k..<k + length (neo # neos)] = k # [Suc k..<Suc k + length neos]"
    by (simp add: upt_rec)
  with body rest sites sites1 show ?case
    by simp
qed

lemma required_keys_diameter:
  assumes "required_keys_present neo"
  shows "\<exists>r. diameter_max neo = Inr r"
  using assms
  by (auto simp: lookup_defs required_keys_present_def has_key_def split: option.splits)

text \<open>
  When every record of the feed has the required keys and numeric strings that are
  numbers, the pipeline returns a map with 5 overlays for each of the \<open>min 10 L\<close>
  selected records, the overlays of rank \<open>i\<close> at the site of \<open>i\<close>, in rank order.
\<close>

theorem pipeline_overlays:
  assumes "\<forall>neo\<in>set (concat (map snd by_date)).
             required_keys_present neo \<and> numeric_strings_parse py neo"
  shows "\<exists>m out'.
           create_impact_map py
             (Some \<lparr> element_count = n_elements, near_earth_objects = Some (Dict by_date) \<rparr>) out
             = (Inr m, out')
         \<and> length (children m) = 5 * min 10 (length (concat (map snd by_date)))
         \<and> map location (children m)
             = concat (map (\<lambda>i. replicate 5 (site_for i))
                 [0..<min 10 (length (concat (map snd by_date)))])"
proof -
  let ?all = "concat (map snd by_date)"
  let ?d = "\<lambda>x. case diameter_max x of Inl e \<Rightarrow> 0 | Inr r \<Rightarrow> r"
  let ?S = "list_sort ?d True ?all"
  have "\<forall>x\<in>set ?all. diameter_max x = Inr (?d x)"
  proof
    fix x assume "x \<in> set ?all"
    with assms have "required_keys_present x" by blast
    then obtain r where "diameter_max x = Inr r"
      using required_keys_diameter by blast
    then show "diameter_max x = Inr (?d x)" by simp
  qed
  then have sorted: "sort_by_diameter ?all = Inr ?S"
    by (rule sort_by_diameter_eq)
  have "set ?S = set ?all"
    using mset_list_sort [of ?d ?all] by (metis set_mset_mset)
  then have "set (take 10 ?S) \<subseteq> set ?all"
    using set_take_subset [of 10 ?S] by simp
  with assms have "\<forall>neo\<in>set (take 10 ?S). \<exists>n. extract_fields py neo = Inr n"
    using extract_succeeds by blast
  from loop_success [OF this, of 0 new_map]
  obtain m out' where run: "loop py (enumerate 0 (take 10 ?S)) new_map
        (print (newline @ ''Found '' @ str_nat (length ?S)
           @ '' Near Earth Objects. Showing top 10 by size:'' @ newline) out) = (Inr m, out')"
    and sites: "map location (children m)
         = map location (children new_map)
           @ concat (map (\<lambda>i. replicate 5 (site_for i)) [0..<0 + length (take 10 ?S)])"
    by blast
  have len: "length (take 10 ?S) = min 10 (length ?all)"
    using mset_list_sort [of ?d ?all] by (metis length_take min.commute size_mset)
  have sites': "map location (children m)
         = concat (map (\<lambda>i. replicate 5 (site_for i)) [0..<min 10 (length ?all)])"
    using sites len by (simp add: new_map_def)
  have "length (map location (children m)) = 5 * min 10 (length ?all)"
    unfolding sites' by (simp add: length_concat comp_def sum_list_triv)
  then have count: "length (children m) = 5 * min 10 (length ?all)"
    by simp
  have "create_impact_map py
          (Some \<lparr> element_count = n_elements, near_earth_objects = Some (Dict by_date) \<rparr>) out
        = (Inr m, out')"
    using run by (simp add: create_impact_map_def Let_def sorted)
  with count sites' show ?thesis by blast
qed

theorem pipeline_overlays_witness:
  "required_keys_present (example_neo ''A'' 1 ''17'' True)
   \<and> numeric_strings_parse example_py (example_neo ''A'' 1 ''17'' True)
   \<and> required_keys_present (example_neo ''B'' 2 ''-3.5'' False)
   \<and> numeric_strings_parse example_py (example_neo ''B'' 2 ''-3.5'' False)
   \<and> (\<exists>m out'.
         create_impact_map example_py
           (Some \<lparr> element_count = Some 2,
                   near_earth_objects =
                     Some (Dict [(''2024-01-01'', [example_neo ''A'' 1 ''17'' True]),
                                 (''2024-01-02'', [example_neo ''B'' 2 ''-3.5'' False])]) \<rparr>) []
           = (Inr m, out')
       \<and> length (children m) = 10
       \<and> map location (children m)
           = replicate 5 (site_for 0) @ replicate 5 (site_for 1))"
proof -
  let ?A = "example_neo ''A'' 1 ''17'' True"
  let ?B = "example_neo ''B'' 2 ''-3.5'' False"
  let ?by_date = "[(''2024-01-01'', [?A]), (''2024-01-02'', [?B])]"
  have keys: "required_keys_present ?A" "required_keys_present ?B"
    by (simp_all add: required_keys_present_def has_key_def example_neo_def)
  have numbers: "numeric_strings_parse example_py ?A" "numeric_strings_parse example_py ?B"
    by (simp_all add: numeric_strings_parse_def parses_def example_neo_def example_py_def)
  have all: "\<forall>neo\<in>set (concat (map snd ?by_date)).
      required_keys_present neo \<and> numeric_strings_parse example_py neo"
    using keys numbers by simp
  have ranks: "[0..<2] = [0, Suc 0]"
    by (simp add: upt_rec)
  from pipeline_overlays [OF all, of "Some 2" "[]"] keys numbers show ?thesis
    by (simp add: ranks)
qed

text \<open>
  A record without the diameter anywhere in the feed makes the sort of line 68 raise
  \<^verbatim>\<open>KeyError\<close>: the pipeline returns no map and prints nothing, whatever the rank the
  record would have had.
\<close>

lemma diameter_max_error:
  assumes "diameter_max x = Inl e"
  shows "\<exists>k. e = KeyError k"
  using assms by (auto simp: lookup_defs split: option.splits)

lemma map_err_fails:
  assumes "x \<in> set xs" and "f x = Inl e"
  shows "\<exists>y\<in>set xs. \<exists>e'. f y = Inl e' \<and> map_err f xs = Inl e'"
  using assms
proof (induction xs)
  case Nil
  then show ?case by simp
next
  case (Cons a xs)
  show ?case
  proof (cases "f a")
    case (Inl e')
    then show ?thesis by auto
  next
    case (Inr b)
    with Cons.prems have "x \<in> set xs" by auto
    from Cons.IH [OF this Cons.prems(2)] Inr show ?thesis
      by auto
  qed
qed

theorem missing_diameter_fails_first:
  assumes "neo \<in> set (concat (map snd by_date))" and "diameter_max neo = Inl e"
  shows "\<exists>k. create_impact_map py
                (Some \<lparr> element_count = n_elements, near_earth_objects = Some (Dict by_date) \<rparr>) out
              = (Inl (KeyError k), out)"
proof -
  from map_err_fails [of neo "concat (map snd by_date)" diameter_max e] assms
  obtain y e' where "diameter_max y = Inl e'"
    and fails: "map_err diameter_max (concat (map snd by_date)) = Inl e'"
    by blast
  then obtain k where "e' = KeyError k"
    using diameter_max_error by blast
  with fails show ?thesis
    by (auto simp: create_impact_map_def Let_def sort_by_diameter_def)
qed

theorem missing_diameter_fails_first_witness:
  "diameter_max ((example_neo ''B'' 2 ''17'' False)\<lparr>estimated_diameter := None\<rparr>)
     = Inl (KeyError ''estimated_diameter'')
   \<and> create_impact_map example_py
        (Some \<lparr> element_count = Some 2,
                near_earth_objects =
                  Some (Dict [(''2024-01-01'',
                         [example_neo ''A'' 1 ''17'' True,
                          (example_neo ''B'' 2 ''17'' False)\<lparr>estimated_diameter := None\<rparr>])]) \<rparr>)
        ''>>> ''
     = (Inl (KeyError ''estimated_diameter''), ''>>> '')"
proof -
  let ?A = "example_neo ''A'' 1 ''17'' True"
  let ?B = "(example_neo ''B'' 2 ''17'' False)\<lparr>estimated_diameter := None\<rparr>"
  have missing: "diameter_max ?B = Inl (KeyError ''estimated_diameter'')"
    by (simp add: lookup_defs)
  have present: "diameter_max ?A = Inr 1"
    by (simp add: lookup_defs example_neo_def)
  have member: "?B \<in> set (concat (map snd [(''2024-01-01'', [?A, ?B])]))"
    by simp
  have sort: "sort_by_diameter [?A, ?B] = Inl (KeyError ''estimated_diameter'')"
    by (simp add: sort_by_diameter_def missing present)
  from missing_diameter_fails_first [OF member missing, of example_py "Some 2" "''>>> ''"]
  obtain k where "create_impact_map example_py
        (Some \<lparr> element_count = Some 2,
                near_earth_objects = Some (Dict [(''2024-01-01'', [?A, ?B])]) \<rparr>) ''>>> ''
     = (Inl (KeyError k), ''>>> '')"
    by blast
  moreover have "create_impact_map example_py
        (Some \<lparr> element_count = Some 2,
                near_earth_objects = Some (Dict [(''2024-01-01'', [?A, ?B])]) \<rparr>) ''>>> ''
     = (Inl (KeyError ''estimated_diameter''), ''>>> '')"
    by (simp add: create_impact_map_def Let_def sort)
  ultimately show ?thesis
    using missing by simp
qed

text \<open>
  The ten sites are distinct, so no two of the at most 10 selected objects share a
  site.
\<close>

theorem selected_sites_distinct:
  "distinct (map site_for [0..<10])"
proof -
  have sites: "map site_for [0..<10] = locations"
    by (simp add: upt_rec site_for_def locations_def)
  have "distinct locations"
    by (simp add: locations_def)
  with sites show ?thesis by simp
qed

text \<open>
  A key \<open>near_earth_objects\<close> whose value is no dictionary (\<^verbatim>\<open>null\<close>, for one) passes the
  test of line 58; line 64 then raises \<^verbatim>\<open>AttributeError\<close>, and nothing is printed.
\<close>

theorem non_mapping_raises:
  "create_impact_map py
     (Some \<lparr> element_count = n_elements, near_earth_objects = Some NotDict \<rparr>) out
   = (Inl AttributeError, out)"
  by (simp add: create_impact_map_def)

section \<open>Properties of binary64 rounding\<close>

lemma rnd_zero: "rnd 0 = 0"
  by (simp add: rnd_def)

lemma round_even_of_int: "round_even (real_of_int n) = n"
  by (simp add: round_even_def)

lemma round_even_mono:
  assumes "s \<le> t"
  shows "round_even s \<le> round_even t"
proof (cases "\<lfloor>s\<rfloor> = \<lfloor>t\<rfloor>")
  case True
  with assms show ?thesis
    by (auto simp: round_even_def)
next
  case False
  with assms have "\<lfloor>s\<rfloor> < \<lfloor>t\<rfloor>"
    by (simp add: floor_mono le_neq_trans)
  then have "\<lfloor>s\<rfloor> + 1 \<le> \<lfloor>t\<rfloor>" by simp
  moreover have "round_even s \<le> \<lfloor>s\<rfloor> + 1"
    by (simp add: round_even_def)
  moreover have "\<lfloor>t\<rfloor> \<le> round_even t"
    by (simp add: round_even_def)
  ultimately show ?thesis by linarith
qed

lemma floor_log2_bounds:
  assumes "0 < x"
  shows "2 powr real_of_int \<lfloor>log 2 x\<rfloor> \<le> x"
    and "x < 2 powr real_of_int (\<lfloor>log 2 x\<rfloor> + 1)"
  using floor_log_eq_powr_iff [of x 2 "\<lfloor>log 2 x\<rfloor>"] assms by simp_all

lemma two_powr_quotient:
  "2 powr real_of_int k / 2 powr real_of_int e = 2 powr real_of_int (k - e)"
  by (simp add: powr_diff)

lemma two_powr_is_int:
  assumes "0 \<le> j"
  shows "\<exists>n::int. 2 powr real_of_int j = real_of_int n \<and> 0 < n"
proof -
  have "2 powr real_of_int j = (2::real) ^ nat j"
    using assms by (simp add: powr_real_of_int)
  also have "\<dots> = real_of_int (2 ^ nat j)" by simp
  finally show ?thesis by (intro exI [of _ "2 ^ nat j"]) simp
qed

lemma rnd_scaled:
  assumes "x \<noteq> 0"
  shows "rnd x = real_of_int (round_even (x / 2 powr real_of_int (ulp_exponent x)))
                   * 2 powr real_of_int (ulp_exponent x)"
  using assms by (simp add: rnd_def)

text \<open>A number with at most 53 significant bits above \<open>2^-1074\<close> is a float.\<close>

lemma rnd_exact:
  assumes x: "x = real_of_int m * 2 powr real_of_int k"
    and m: "\<bar>m\<bar> < 2 ^ 53" and k: "- 1074 \<le> k"
  shows "rnd x = x"
proof (cases "x = 0")
  case True
  then show ?thesis by (simp add: rnd_def)
next
  case False
  let ?e = "ulp_exponent x"
  have abs: "\<bar>x\<bar> = real_of_int \<bar>m\<bar> * 2 powr real_of_int k"
    using x by (simp add: abs_mult)
  have "\<bar>x\<bar> < 2 ^ 53 * 2 powr real_of_int k"
  proof -
    have "real_of_int \<bar>m\<bar> < 2 ^ 53"
      using m by (metis of_int_less_iff of_int_numeral of_int_power)
    then show ?thesis unfolding abs by simp
  qed
  also have "\<dots> = 2 powr real_of_int (53 + k)"
    by (simp add: powr_add powr_realpow [symmetric])
  finally have "\<bar>x\<bar> < 2 powr real_of_int (53 + k)" .
  moreover have "0 < \<bar>x\<bar>" using False by simp
  ultimately have "log 2 \<bar>x\<bar> < real_of_int (53 + k)"
    by (simp add: log_less_iff)
  then have "\<lfloor>log 2 \<bar>x\<bar>\<rfloor> < 53 + k"
    by (simp add: floor_less_iff)
  then have ek: "?e \<le> k"
    using k by (simp add: ulp_exponent_def)
  then obtain n :: int where n: "2 powr real_of_int (k - ?e) = real_of_int n"
    using two_powr_is_int [of "k - ?e"] by auto
  have "x / 2 powr real_of_int ?e
          = real_of_int m * (2 powr real_of_int k / 2 powr real_of_int ?e)"
    using x by simp
  also have "\<dots> = real_of_int (m * n)"
    by (simp only: two_powr_quotient n of_int_mult)
  finally have q: "x / 2 powr real_of_int ?e = real_of_int (m * n)" .
  have "rnd x = real_of_int (m * n) * 2 powr real_of_int ?e"
    using False by (simp add: rnd_def q round_even_of_int del: of_int_mult)
  also have "\<dots> = x / 2 powr real_of_int ?e * 2 powr real_of_int ?e"
    by (simp only: q)
  also have "\<dots> = x" by simp
  finally show ?thesis .
qed

lemma rnd_two_powr:
  assumes "- 1074 \<le> k"
  shows "rnd (2 powr real_of_int k) = 2 powr real_of_int k"
  using rnd_exact [of "2 powr real_of_int k" 1 k] assms by simp

lemma rnd_nonneg:
  assumes "0 \<le> x"
  shows "0 \<le> rnd x"
proof (cases "x = 0")
  case True
  then show ?thesis by (simp add: rnd_zero)
next
  case False
  with assms have "0 \<le> x / 2 powr real_of_int (ulp_exponent x)"
    by simp
  then have "round_even 0 \<le> round_even (x / 2 powr real_of_int (ulp_exponent x))"
    by (rule round_even_mono)
  then have "0 \<le> round_even (x / 2 powr real_of_int (ulp_exponent x))"
    using round_even_of_int [of 0] by simp
  then show ?thesis
    using False by (simp add: rnd_scaled)
qed

lemma ulp_exponent_mono:
  assumes "0 < x" and "x \<le> y"
  shows "ulp_exponent x \<le> ulp_exponent y"
proof -
  have "log 2 x \<le> log 2 y"
    using assms by simp
  then have "\<lfloor>log 2 x\<rfloor> \<le> \<lfloor>log 2 y\<rfloor>"
    by (rule floor_mono)
  then show ?thesis
    using assms by (simp add: ulp_exponent_def)
qed

lemma rnd_mono:
  assumes "0 \<le> x" and "x \<le> y"
  shows "rnd x \<le> rnd y"
proof (cases "x = 0")
  case True
  then show ?thesis
    using assms rnd_nonneg [of y] by (simp add: rnd_zero)
next
  case False
  with assms have x: "0 < x" and y: "0 < y" by simp_all
  let ?ex = "ulp_exponent x"
  let ?ey = "ulp_exponent y"
  have le: "?ex \<le> ?ey"
    using x assms(2) by (rule ulp_exponent_mono)
  show ?thesis
  proof (cases "?ex = ?ey")
    case True
    have "x / 2 powr real_of_int ?ey \<le> y / 2 powr real_of_int ?ey"
      using assms(2) by (simp add: divide_right_mono)
    then have "round_even (x / 2 powr real_of_int ?ey) \<le> round_even (y / 2 powr real_of_int ?ey)"
      by (rule round_even_mono)
    then have "real_of_int (round_even (x / 2 powr real_of_int ?ey)) * 2 powr real_of_int ?ey
        \<le> real_of_int (round_even (y / 2 powr real_of_int ?ey)) * 2 powr real_of_int ?ey"
      by (simp add: mult_right_mono)
    then show ?thesis
      using x y True by (simp add: rnd_scaled)
  next
    case False
    with le have lt: "?ex < ?ey" by simp
    define a b where "a = \<lfloor>log 2 x\<rfloor>" and "b = \<lfloor>log 2 y\<rfloor>"
    have exa: "?ex = max a (- 1022) - 52" and eyb: "?ey = max b (- 1022) - 52"
      using x y by (simp_all add: ulp_exponent_def a_def b_def)
    from lt have "max a (- 1022) < max b (- 1022)"
      unfolding exa eyb by simp
    then have ab: "a < b" "max b (- 1022) = b" "max a (- 1022) \<le> b - 1"
      by linarith+
    have ey: "?ey = b - 52"
      using eyb ab(2) by linarith
    have exy: "?ex \<le> b - 53"
      using exa ab(3) by linarith
    let ?P = "2 powr real_of_int b"
    have yP: "?P \<le> y"
      using floor_log2_bounds(1) [OF y] by (simp only: b_def)
    have "x < 2 powr real_of_int (a + 1)"
      using floor_log2_bounds(2) [OF x] by (simp only: a_def)
    also have "\<dots> \<le> ?P"
      using ab(1) by simp
    finally have xP: "x \<le> ?P" by simp
    \<comment> \<open>the rounded \<open>y\<close> is at least \<open>P\<close>\<close>
    have "?P / 2 powr real_of_int ?ey = 2 powr real_of_int (b - ?ey)"
      by (rule two_powr_quotient)
    moreover obtain n :: int where n: "2 powr real_of_int (b - ?ey) = real_of_int n"
      using two_powr_is_int [of "b - ?ey"] ey by auto
    ultimately have Pq: "?P / 2 powr real_of_int ?ey = real_of_int n" by simp
    have "?P / 2 powr real_of_int ?ey \<le> y / 2 powr real_of_int ?ey"
      using yP by (simp add: divide_right_mono)
    then have "round_even (real_of_int n) \<le> round_even (y / 2 powr real_of_int ?ey)"
      unfolding Pq by (rule round_even_mono)
    then have "real_of_int n * 2 powr real_of_int ?ey
        \<le> real_of_int (round_even (y / 2 powr real_of_int ?ey)) * 2 powr real_of_int ?ey"
      by (simp add: round_even_of_int mult_right_mono)
    moreover have "real_of_int n * 2 powr real_of_int ?ey = ?P"
      using Pq by (simp add: field_simps)
    ultimately have lower: "?P \<le> rnd y"
      using y by (simp add: rnd_scaled)
    \<comment> \<open>the rounded \<open>x\<close> is at most \<open>P\<close>\<close>
    have "?P / 2 powr real_of_int ?ex = 2 powr real_of_int (b - ?ex)"
      by (rule two_powr_quotient)
    moreover obtain k :: int where k: "2 powr real_of_int (b - ?ex) = real_of_int k"
      using two_powr_is_int [of "b - ?ex"] exy by auto
    ultimately have Pq': "?P / 2 powr real_of_int ?ex = real_of_int k" by simp
    have "x / 2 powr real_of_int ?ex \<le> ?P / 2 powr real_of_int ?ex"
      using xP by (simp add: divide_right_mono)
    then have "round_even (x / 2 powr real_of_int ?ex) \<le> round_even (real_of_int k)"
      unfolding Pq' by (rule round_even_mono)
    then have "real_of_int (round_even (x / 2 powr real_of_int ?ex)) * 2 powr real_of_int ?ex
        \<le> real_of_int k * 2 powr real_of_int ?ex"
      by (simp add: round_even_of_int mult_right_mono)
    moreover have "real_of_int k * 2 powr real_of_int ?ex = ?P"
      using Pq' by (simp add: field_simps)
    ultimately have upper: "rnd x \<le> ?P"
      using x by (simp add: rnd_scaled)
    from lower upper show ?thesis by simp
  qed
qed

lemma power_as_powr: "(2::real) ^ n = 2 powr real_of_int (int n)"
  by (simp add: powr_realpow)

lemma rnd_power: "rnd (2 ^ n) = 2 ^ n"
  unfolding power_as_powr by (rule rnd_two_powr) simp

lemma rnd_le_power:
  assumes "0 \<le> x" and "x \<le> 2 ^ n"
  shows "rnd x \<le> 2 ^ n"
  using rnd_mono [OF assms] by (simp add: rnd_power)

lemma rnd_ge_power:
  assumes "2 ^ n \<le> x"
  shows "2 ^ n \<le> rnd x"
  using rnd_mono [of "2 ^ n" x] assms by (simp add: rnd_power)

lemma rnd_of_int:
  assumes "\<bar>m\<bar> < 2 ^ 53"
  shows "rnd (real_of_int m) = real_of_int m"
  using rnd_exact [of "real_of_int m" m 0] assms by simp

lemma rnd_dyadic:
  assumes "\<bar>m\<bar> < 2 ^ 53" and "j \<le> 1074"
  shows "rnd (real_of_int m / 2 ^ j) = real_of_int m / 2 ^ j"
proof -
  have "real_of_int m / 2 ^ j = real_of_int m * 2 powr real_of_int (- int j)"
    by (simp add: powr_minus_divide powr_realpow)
  moreover have "- 1074 \<le> - int j"
    using assms(2) by simp
  ultimately show ?thesis
    using rnd_exact [of "real_of_int m / 2 ^ j" m "- int j"] assms(1) by simp
qed

lemma rnd_small_numbers:
  "rnd 1 = 1" "rnd 2 = 2" "rnd 4 = 4" "rnd 8 = 8" "rnd (1 / 4) = 1 / 4" "rnd (1 / 2) = 1 / 2"
  "rnd (9 / 4) = 9 / 4" "rnd (21 / 16) = 21 / 16"
  using rnd_of_int [of 1] rnd_of_int [of 2] rnd_of_int [of 4] rnd_of_int [of 8]
    rnd_dyadic [of 1 2] rnd_dyadic [of 1 1] rnd_dyadic [of 9 2] rnd_dyadic [of 21 4]
  by simp_all

lemma rounded_literals:
  shows "1 / 4 \<le> rnd 0.43" and "rnd 0.43 \<le> 1 / 2"
    and "1 / 4 \<le> rnd 0.33" and "rnd 0.33 \<le> 1 / 2"
    and "2 \<le> rnd 2.2" and "rnd 2.2 \<le> 9 / 4"
  using rnd_mono [of "1 / 4" "0.43"] rnd_mono [of "0.43" "1 / 2"]
    rnd_mono [of "1 / 4" "0.33"] rnd_mono [of "0.33" "1 / 2"]
    rnd_mono [of 2 "2.2"] rnd_mono [of "2.2" "9 / 4"]
  by (simp_all add: rnd_small_numbers)

lemma round_to_pyfloat_zero: "round_to_pyfloat 0 = Finite 0"
  by (simp add: round_to_pyfloat_def to_pyfloat_def rnd_zero)

lemma round_to_pyfloat_finite:
  assumes "0 \<le> x" and "x \<le> 2 ^ n" and "n < 1024"
  shows "round_to_pyfloat x = Finite (rnd x)" and "0 \<le> rnd x" and "rnd x \<le> 2 ^ n"
proof -
  show nonneg: "0 \<le> rnd x"
    using assms(1) by (rule rnd_nonneg)
  show le: "rnd x \<le> 2 ^ n"
    using assms(1,2) by (rule rnd_le_power)
  have "(2::real) ^ n < 2 ^ 1024"
    using assms(3) by (intro power_strict_increasing) simp_all
  with le have "rnd x < 2 ^ 1024" by (rule le_less_trans)
  with nonneg show "round_to_pyfloat x = Finite (rnd x)"
    by (simp add: round_to_pyfloat_def to_pyfloat_def)
qed

lemma round_to_pyfloat_overflow:
  assumes "2 ^ 1024 \<le> x"
  shows "round_to_pyfloat x = PosInf"
  using rnd_ge_power [OF assms] by (simp add: round_to_pyfloat_def to_pyfloat_def)

text \<open>A positive float is at least \<open>2^-1074\<close>.\<close>

lemma rnd_positive_least:
  assumes "0 < rnd x" and "0 \<le> x"
  shows "2 powr (- 1074) \<le> rnd x"
proof -
  from assms have x: "x \<noteq> 0"
    by (auto simp: rnd_zero)
  let ?e = "ulp_exponent x"
  let ?n = "round_even (x / 2 powr real_of_int ?e)"
  have eq: "rnd x = real_of_int ?n * 2 powr real_of_int ?e"
    using x by (rule rnd_scaled)
  with assms(1) have "0 < real_of_int ?n"
    by (simp add: zero_less_mult_iff)
  then have "0 < ?n"
    by (simp only: of_int_0_less_iff)
  then have "1 \<le> ?n"
    by simp
  then have "1 \<le> real_of_int ?n"
    by (simp only: of_int_1_le_iff)
  then have step: "1 * 2 powr real_of_int ?e \<le> real_of_int ?n * 2 powr real_of_int ?e"
    by (intro mult_right_mono) simp_all
  have "- 1074 \<le> ?e"
    by (simp add: ulp_exponent_def)
  then have "real_of_int (- 1074) \<le> real_of_int ?e"
    by (simp only: of_int_le_iff)
  then have "(2::real) powr (- 1074) \<le> 2 powr real_of_int ?e"
    by simp
  with step show ?thesis
    unfolding eq by linarith
qed

text \<open>
  Two numbers above the subnormal range, the second at least \<open>9/4\<close> times the first,
  are rounded to different floats.
\<close>

lemma rnd_gap:
  assumes "2 powr (- 1022) \<le> x" and "9 / 4 * x \<le> y"
  shows "rnd x < rnd y"
proof -
  have x: "0 < x"
    using assms(1) by (smt (verit) powr_gt_zero)
  define b where "b = \<lfloor>log 2 x\<rfloor>"
  have low: "2 powr real_of_int b \<le> x" and high: "x < 2 powr real_of_int (b + 1)"
    using floor_log2_bounds [OF x] by (simp_all only: b_def)
  have "real_of_int (- 1022) \<le> log 2 x"
    using assms(1) x by (simp add: le_log_iff)
  then have b: "- 1022 \<le> b"
    unfolding b_def by (simp only: le_floor_iff)
  let ?p = "2 powr real_of_int (b + 1)"
  have p2: "?p = 2 * 2 powr real_of_int b"
    by (simp add: powr_add)
  have "rnd x \<le> rnd ?p"
    using x high by (intro rnd_mono) simp_all
  also have "rnd ?p = ?p"
    using b by (intro rnd_two_powr) simp
  finally have upper: "rnd x \<le> ?p" .
  have nine: "9 / 8 * ?p = real_of_int 9 * 2 powr real_of_int (b - 2)"
    by (simp add: powr_add powr_diff)
  have "9 / 8 * ?p \<le> 9 / 4 * x"
    using low unfolding p2 by simp
  also have "\<dots> \<le> y" by (rule assms(2))
  finally have "9 / 8 * ?p \<le> y" .
  then have "rnd (9 / 8 * ?p) \<le> rnd y"
    by (intro rnd_mono) simp_all
  moreover have "rnd (9 / 8 * ?p) = 9 / 8 * ?p"
    using b by (intro rnd_exact [OF nine]) simp_all
  ultimately have "9 / 8 * ?p \<le> rnd y" by simp
  moreover have "?p < 9 / 8 * ?p" by simp
  ultimately show ?thesis
    using upper by linarith
qed

lemma rnd_within_factor_two:
  assumes "2 powr (- 1021) \<le> t"
  shows "t / 2 \<le> rnd t" and "rnd t \<le> 2 * t"
proof -
  have t: "0 < t"
    using assms by (smt (verit) powr_gt_zero)
  define b where "b = \<lfloor>log 2 t\<rfloor>"
  have low: "2 powr real_of_int b \<le> t" and high: "t < 2 powr real_of_int (b + 1)"
    using floor_log2_bounds [OF t] by (simp_all only: b_def)
  have "real_of_int (- 1021) \<le> log 2 t"
    using assms t by (simp add: le_log_iff)
  then have b: "- 1021 \<le> b"
    unfolding b_def by (simp only: le_floor_iff)
  have double: "2 powr real_of_int (b + 1) = 2 * 2 powr real_of_int b"
    by (simp add: powr_add)
  have "rnd (2 powr real_of_int b) \<le> rnd t"
    using low by (intro rnd_mono) simp_all
  moreover have "rnd (2 powr real_of_int b) = 2 powr real_of_int b"
    using b by (intro rnd_two_powr) simp
  ultimately show "t / 2 \<le> rnd t"
    using high double by linarith
  have "rnd t \<le> rnd (2 powr real_of_int (b + 1))"
    using t high by (intro rnd_mono) simp_all
  moreover have "rnd (2 powr real_of_int (b + 1)) = 2 powr real_of_int (b + 1)"
    using b by (intro rnd_two_powr) simp
  ultimately show "rnd t \<le> 2 * t"
    using low double by linarith
qed

lemma powr_at_most:
  fixes q B w :: real
  assumes "0 \<le> q" and "q \<le> B" and "1 \<le> B" and "0 \<le> w" and "w \<le> 1"
  shows "q powr w \<le> B"
proof (cases "q \<le> 1")
  case True
  then have "\<bar>q\<bar> \<le> 1"
    using assms(1) by simp
  with assms(4) have "q powr w \<le> 1"
    by (rule powr_le1)
  with assms(3) show ?thesis by simp
next
  case False
  then have "q powr w \<le> q powr 1"
    using assms(5) by (intro powr_mono) simp_all
  with assms(1,2) show ?thesis by simp
qed

section \<open>Properties of the calculator on floats\<close>

lemma example_libm_sound: "libm_sound example_libm"
  unfolding libm_sound_def
proof (intro allI impI)
  fix a w :: real
  assume a: "0 < a"
  let ?t = "a powr w"
  have t: "0 < ?t"
    using a by simp
  have nonneg: "0 \<le> rnd ?t"
    using t by (intro rnd_nonneg) simp
  have range: "round_to_pyfloat ?t = PosInf
      \<or> (\<exists>x. round_to_pyfloat ?t = Finite x \<and> 0 \<le> x \<and> x < 2 ^ 1024)"
    using nonneg by (auto simp: round_to_pyfloat_def to_pyfloat_def)
  have small: "\<exists>x. round_to_pyfloat ?t = Finite x \<and> (False \<longrightarrow> x = 0)
      \<and> (2 powr (- 1021) \<le> ?t \<longrightarrow> ?t / 2 \<le> x \<and> x \<le> 2 * ?t)"
    if "?t < 2 ^ 1023"
  proof -
    have "round_to_pyfloat ?t = Finite (rnd ?t)"
      using t that by (intro round_to_pyfloat_finite(1) [where n = 1023]) simp_all
    then show ?thesis
      using rnd_within_factor_two [of ?t] by blast
  qed
  show "\<exists>r erange. example_libm a w = (r, erange)
           \<and> (r = PosInf \<or> (\<exists>x. r = Finite x \<and> 0 \<le> x \<and> x < 2 ^ 1024))
           \<and> (?t < 2 ^ 1023 \<longrightarrow>
                (\<exists>x. r = Finite x \<and> (erange \<longrightarrow> x = 0)
                   \<and> (2 powr (- 1021) \<le> ?t \<longrightarrow> ?t / 2 \<le> x \<and> x \<le> 2 * ?t)))"
    using range small by (auto simp: example_libm_def)
qed

text \<open>A power in range of a float that is not negative is a finite float.\<close>

lemma float_pow_in_range:
  assumes "libm_sound libm" and "0 \<le> a" and "0 < w" and "a powr w < 2 ^ 1023"
  shows "\<exists>s. float_pow libm (Finite a) w = Inr (Float (Finite s)) \<and> 0 \<le> s \<and> s < 2 ^ 1024"
proof -
  consider "a = 0" | "a = 1" | "0 < a" "a \<noteq> 1"
    using assms(2) by fastforce
  then show ?thesis
  proof cases
    case 1
    with assms(3) show ?thesis
      by (simp add: float_pow_def)
  next
    case 2
    with assms(3) show ?thesis
      by (simp add: float_pow_def)
  next
    case 3
    from assms(1) 3(1) assms(4)
    obtain r erange x where "libm a w = (r, erange)" "r = Finite x" "erange \<longrightarrow> x = 0"
      "r = PosInf \<or> (\<exists>y. r = Finite y \<and> 0 \<le> y \<and> y < 2 ^ 1024)"
      unfolding libm_sound_def by (metis (no_types, lifting))
    with 3 assms(3) show ?thesis
      by (auto simp: float_pow_def)
  qed
qed

lemma fmul_zero:
  "fmul (Finite 0) (Finite b) = Finite 0" "fmul (Finite a) (Finite 0) = Finite 0"
  by (simp_all add: round_to_pyfloat_zero)

lemma four_thirds_times_pi:
  shows "fdiv (Finite 4) (Finite 3) = Inr (Finite (rnd (4 / 3)))"
    and "fmul (Finite (rnd (4 / 3))) (Finite pi_float) = Finite (rnd (rnd (4 / 3) * pi_float))"
    and "4 \<le> rnd (rnd (4 / 3) * pi_float)" and "rnd (rnd (4 / 3) * pi_float) \<le> 8"
proof -
  have third: "21 / 16 \<le> rnd (4 / 3)" "rnd (4 / 3) \<le> 2"
    using rnd_mono [of "21 / 16" "4 / 3"] rnd_mono [of "4 / 3" 2]
    by (simp_all add: rnd_small_numbers)
  have pi: "314 / 100 \<le> pi_float" "pi_float \<le> 4"
    by (simp_all add: pi_float_def)
  show "fdiv (Finite 4) (Finite 3) = Inr (Finite (rnd (4 / 3)))"
    using round_to_pyfloat_finite(1) [of "4 / 3" 1] by simp
  have "21 / 16 * (314 / 100) \<le> rnd (4 / 3) * pi_float"
    using third(1) pi(1) by (intro mult_mono) simp_all
  then have low: "4 \<le> rnd (4 / 3) * pi_float"
    by simp
  have "rnd (4 / 3) * pi_float \<le> 2 * 4"
    using third pi by (intro mult_mono) simp_all
  then have high: "rnd (4 / 3) * pi_float \<le> 2 ^ 3"
    by simp
  show "fmul (Finite (rnd (4 / 3))) (Finite pi_float) = Finite (rnd (rnd (4 / 3) * pi_float))"
    using low high round_to_pyfloat_finite(1) [of "rnd (4 / 3) * pi_float" 3] by simp
  show "4 \<le> rnd (rnd (4 / 3) * pi_float)"
    using rnd_mono [of 4 "rnd (4 / 3) * pi_float"] low by (simp add: rnd_small_numbers)
  show "rnd (rnd (4 / 3) * pi_float) \<le> 8"
    using rnd_le_power [of "rnd (4 / 3) * pi_float" 3] low high by simp
qed

text \<open>
  Claim C8, as the code has it. For the diameter 0 and every finite velocity that is
  not negative with \<open>velocity_kmps * 1000 \<le> 2^511\<close> (a velocity up to about 6.7e150), on
  a C library whose \<^verbatim>\<open>pow\<close> is sound, the calculator raises no error and returns exactly
  0 for the crater diameter, the energy and the three damage radii, with
  \<open>0 ** 0.33 = 0\<close>.
\<close>

theorem zero_diameter:
  assumes "libm_sound libm" and "0 \<le> v" and "v * 1000 \<le> 2 ^ 511"
  shows "calculate_impact_effects_float libm (Finite 0) (Finite v) =
           Inr \<lparr> crater_diameter_f = Float (Finite 0), energy_megatons_f = Float (Finite 0),
                 severe_damage_radius_f = Float (Finite 0),
                 moderate_damage_radius_f = Float (Finite 0),
                 light_damage_radius_f = Float (Finite 0) \<rparr>
         \<and> float_pow libm (Finite 0) (rnd 0.33) = Inr (Float (Finite 0))"
proof -
  have w43: "0 < rnd 0.43" "rnd 0.43 \<le> 1" and w33: "0 < rnd 0.33"
    using rounded_literals by simp_all
  \<comment> \<open>line 33\<close>
  have v17: "0 \<le> v / 17" "v / 17 \<le> 2 ^ 511"
    using assms(2,3) by simp_all
  have ratio: "fdiv (Finite v) (Finite 17) = Inr (Finite (rnd (v / 17)))"
    using round_to_pyfloat_finite(1) [OF v17] by simp
  have q: "0 \<le> rnd (v / 17)" "rnd (v / 17) \<le> 2 ^ 511"
    using round_to_pyfloat_finite(2,3) [OF v17] by simp_all
  have "rnd (v / 17) powr rnd 0.43 \<le> 2 ^ 511"
    using q w43 by (intro powr_at_most) simp_all
  also have "(2::real) ^ 511 < 2 ^ 1023"
    by (intro power_strict_increasing) simp_all
  finally obtain s where
    scale: "float_pow libm (Finite (rnd (v / 17))) (rnd 0.43) = Inr (Float (Finite s))"
    using float_pow_in_range [OF assms(1) q(1) w43(1)] by blast
  \<comment> \<open>line 36\<close>
  have cube: "float_pow libm (Finite 0) 3 = Inr (Float (Finite 0))"
    by (simp add: float_pow_def)
  \<comment> \<open>line 37\<close>
  have v1000: "0 \<le> v * 1000"
    using assms(2) by simp
  have speed: "fmul (Finite v) (Finite 1000) = Finite (rnd (v * 1000))"
    using round_to_pyfloat_finite(1) [OF v1000 assms(3)] by simp
  have u: "0 \<le> rnd (v * 1000)" "rnd (v * 1000) \<le> 2 ^ 511"
    using round_to_pyfloat_finite(2,3) [OF v1000 assms(3)] by simp_all
  have "rnd (v * 1000) powr 2 = rnd (v * 1000) ^ 2"
    using u(1) by simp
  also have "\<dots> \<le> (2 ^ 511) ^ 2"
    using u by (intro power_mono) simp_all
  also have "\<dots> = (2::real) ^ 1022"
    by (simp add: power_mult [symmetric])
  also have "\<dots> < 2 ^ 1023"
    by (intro power_strict_increasing) simp_all
  finally obtain t where
    square: "float_pow libm (Finite (rnd (v * 1000))) 2 = Inr (Float (Finite t))"
    using float_pow_in_range [OF assms(1) u(1), of 2] by auto
  \<comment> \<open>lines 38 and 41\<close>
  have zero: "float_pow libm (Finite 0) (rnd 0.33) = Inr (Float (Finite 0))"
    using w33 by (simp add: float_pow_def)
  have megatons: "fdiv (Finite 0) (Finite (4.184 * 10 ^ 15)) = Inr (Finite 0)"
    by (simp add: round_to_pyfloat_zero)
  have run: "calculate_impact_effects_float libm (Finite 0) (Finite v) =
           Inr \<lparr> crater_diameter_f = Float (Finite 0), energy_megatons_f = Float (Finite 0),
                 severe_damage_radius_f = Float (Finite 0),
                 moderate_damage_radius_f = Float (Finite 0),
                 light_damage_radius_f = Float (Finite 0) \<rparr>"
    by (simp only: calculate_impact_effects_float_def and_then_def ratio scale
        four_thirds_times_pi(1,2) cube speed square megatons zero fmul_zero
        sum.case fnum_mul.simps fnum_div.simps fnum_pow.simps)
  from run zero show ?thesis ..
qed

theorem zero_diameter_witness:
  "libm_sound example_libm \<and> (0::real) \<le> 17 \<and> (17::real) * 1000 \<le> 2 ^ 511
   \<and> calculate_impact_effects_float example_libm (Finite 0) (Finite 17) =
       Inr \<lparr> crater_diameter_f = Float (Finite 0), energy_megatons_f = Float (Finite 0),
             severe_damage_radius_f = Float (Finite 0),
             moderate_damage_radius_f = Float (Finite 0),
             light_damage_radius_f = Float (Finite 0) \<rparr>"
proof -
  have v: "(0::real) \<le> 17" by simp
  have "(17::real) * 1000 \<le> 2 ^ 15"
    by simp
  also have "(2::real) ^ 15 \<le> 2 ^ 511"
    by (intro power_increasing) simp_all
  finally have range: "(17::real) * 1000 \<le> 2 ^ 511" .
  from zero_diameter [OF example_libm_sound v range] example_libm_sound v range
  show ?thesis by blast
qed

text \<open>
  Beyond that range it is not so: at the diameter 0 and the velocity \<open>17 * 2^600\<close>
  (about 7.05e181) the square of line 37 leaves the floats and \<^verbatim>\<open>**\<close> raises
  \<^verbatim>\<open>OverflowError\<close>; at the diameter 0 and the velocity \<open>+\<infinity>\<close> the calculator returns
  NaN in the five fields (the energy is \<open>0 * +\<infinity>\<close>).
\<close>

theorem zero_diameter_fails:
  "calculate_impact_effects_float example_libm (Finite 0) (Finite (17 * 2 ^ 600))
     = Inl OverflowError
   \<and> calculate_impact_effects_float example_libm (Finite 0) PosInf =
     Inr \<lparr> crater_diameter_f = Float NaN, energy_megatons_f = Float NaN,
           severe_damage_radius_f = Float NaN, moderate_damage_radius_f = Float NaN,
           light_damage_radius_f = Float NaN \<rparr>"
proof -
  define p :: real where "p = 2 ^ 600"
  have w43: "0 < rnd 0.43" "rnd 0.43 \<le> 1"
    using rounded_literals by simp_all
  have p1: "1 < p"
    unfolding p_def by (intro one_less_power) simp_all
  have p2: "p < 2 ^ 1023"
    unfolding p_def by (intro power_strict_increasing) simp_all
  have p3: "rnd p = p"
    unfolding p_def by (rule rnd_power)
  have "(2::real) ^ 1024 \<le> 2 ^ (600 * 2)"
    by (intro power_increasing) simp_all
  then have p4: "2 ^ 1024 \<le> p ^ 2"
    unfolding p_def by (simp only: power_mult)
  note p = p1 p2 p3 p4
  \<comment> \<open>line 33\<close>
  have "round_to_pyfloat p = Finite p"
    using round_to_pyfloat_finite(1) [of p 600] p(1) by (simp add: p(3)) (simp add: p_def)
  then have ratio: "fdiv (Finite (17 * p)) (Finite 17) = Inr (Finite p)"
    by simp
  have "p powr rnd 0.43 \<le> p"
    using w43 p(1) by (intro powr_at_most) simp_all
  then have "p powr rnd 0.43 < 2 ^ 1023"
    using p(2) by (rule le_less_trans)
  then obtain s where
    scale: "float_pow example_libm (Finite p) (rnd 0.43) = Inr (Float (Finite s))"
    using float_pow_in_range [OF example_libm_sound _ w43(1), of p] p(1) by auto
  \<comment> \<open>line 36\<close>
  have cube: "float_pow example_libm (fmul (Finite 0) (Finite 500)) 3 = Inr (Float (Finite 0))"
    by (simp add: round_to_pyfloat_zero float_pow_def)
  \<comment> \<open>line 37\<close>
  let ?u = "rnd (17 * p * 1000)"
  have "17 * p * 1000 \<le> 2 ^ 15 * p"
    using p(1) by simp
  also have "2 ^ 15 * p = 2 ^ 615"
    unfolding p_def by (simp only: power_add [symmetric]) simp
  finally have le: "17 * p * 1000 \<le> 2 ^ 615" .
  have ge: "0 \<le> 17 * p * 1000" "p \<le> 17 * p * 1000"
    using p(1) by simp_all
  have speed: "fmul (Finite (17 * p)) (Finite 1000) = Finite ?u"
    using round_to_pyfloat_finite(1) [OF ge(1) le] by simp
  have u: "p \<le> ?u"
    using rnd_mono [OF _ ge(2)] p(1,3) by simp
  have "2 ^ 1024 \<le> p ^ 2"
    by (rule p(4))
  also have "\<dots> \<le> ?u ^ 2"
    using u p(1) by (intro power_mono) simp_all
  finally have "2 ^ 1024 \<le> ?u powr 2"
    using u p(1) by simp
  then have big: "round_to_pyfloat (?u powr 2) = PosInf"
    by (rule round_to_pyfloat_overflow)
  have "1 < ?u" "0 < ?u"
    using u p(1) by simp_all
  then have square: "float_pow example_libm (Finite ?u) 2 = Inl OverflowError"
    using big by (simp add: float_pow_def example_libm_def)
  have "calculate_impact_effects_float example_libm (Finite 0) (Finite (17 * p))
     = Inl OverflowError"
    by (simp only: calculate_impact_effects_float_def and_then_def ratio scale
        four_thirds_times_pi(1,2) cube speed square sum.case)
  then have overflow:
    "calculate_impact_effects_float example_libm (Finite 0) (Finite (17 * 2 ^ 600))
       = Inl OverflowError"
    by (simp only: p_def)
  \<comment> \<open>the velocity \<open>+\<infinity>\<close>\<close>
  have w33: "0 < rnd 0.33"
    using rounded_literals by simp
  have quotients: "fdiv PosInf (Finite 17) = Inr PosInf"
    "fdiv NaN (Finite (4.184 * 10 ^ 15)) = Inr NaN"
    by simp_all
  have powers: "float_pow example_libm PosInf (rnd 0.43) = Inr (Float PosInf)"
    "float_pow example_libm PosInf 2 = Inr (Float PosInf)"
    "float_pow example_libm NaN (rnd 0.33) = Inr (Float NaN)"
    "float_pow example_libm (Finite 0) 3 = Inr (Float (Finite 0))"
    using w43(1) w33 by (simp_all add: float_pow_def)
  have products: "fmul (Finite 0) (Finite 20) = Finite 0" "fmul (Finite 0) (Finite 500) = Finite 0"
    "fmul PosInf (Finite 1000) = PosInf"
    "fmul (Finite (rnd (rnd (4 / 3) * pi_float))) (Finite 0) = Finite 0"
    "fmul (Finite 0) (Finite 2500) = Finite 0" "fmul (Finite 0.5) (Finite 0) = Finite 0"
    "fmul (Finite 0) PosInf = NaN"
    "fmul NaN (Finite (rnd 2.2)) = NaN" "fmul NaN (Finite 5.5) = NaN"
    "fmul NaN (Finite 15) = NaN"
    by (simp_all add: round_to_pyfloat_zero)
  have nan: "calculate_impact_effects_float example_libm (Finite 0) PosInf =
     Inr \<lparr> crater_diameter_f = Float NaN, energy_megatons_f = Float NaN,
           severe_damage_radius_f = Float NaN, moderate_damage_radius_f = Float NaN,
           light_damage_radius_f = Float NaN \<rparr>"
    by (simp only: calculate_impact_effects_float_def and_then_def quotients powers products
        four_thirds_times_pi(1,2) cube sum.case fnum_mul.simps fnum_div.simps fnum_pow.simps)
  from overflow nan show ?thesis ..
qed


subsection \<open>Floats that are not negative\<close>

lemma not_below_zero:
  "\<not> flt x (Finite 0) \<longleftrightarrow> x = NaN \<or> x = PosInf \<or> (\<exists>a. x = Finite a \<and> 0 \<le> a)"
  by (cases x) auto

lemma at_least_zero:
  "fle (Finite 0) x \<longleftrightarrow> x = PosInf \<or> (\<exists>a. x = Finite a \<and> 0 \<le> a)"
  by (cases x) auto

lemma round_to_pyfloat_cases:
  assumes "0 \<le> t"
  shows "round_to_pyfloat t = PosInf
     \<or> (round_to_pyfloat t = Finite (rnd t) \<and> 0 \<le> rnd t \<and> rnd t < 2 ^ 1024)"
  using rnd_nonneg [OF assms] by (auto simp: round_to_pyfloat_def to_pyfloat_def)

lemma fmul_not_below_zero:
  assumes "\<not> flt x (Finite 0)" and "\<not> flt y (Finite 0)"
  shows "\<not> flt (fmul x y) (Finite 0)"
proof -
  have "\<not> flt (round_to_pyfloat (a * b)) (Finite 0)" if "0 \<le> a" "0 \<le> b" for a b :: real
    using round_to_pyfloat_cases [of "a * b"] that by auto
  with assms show ?thesis
    unfolding not_below_zero by (cases x; cases y) auto
qed

lemma fdiv_not_below_zero:
  assumes "\<not> flt x (Finite 0)" and "0 < c"
  shows "\<exists>q. fdiv x (Finite c) = Inr q \<and> \<not> flt q (Finite 0)
           \<and> (\<forall>m. q = Finite m \<longrightarrow> 0 < m \<longrightarrow> 2 powr (- 1074) \<le> m \<and> m < 2 ^ 1024)"
proof -
  have "\<not> flt (round_to_pyfloat (a / c)) (Finite 0)
      \<and> (\<forall>m. round_to_pyfloat (a / c) = Finite m \<longrightarrow> 0 < m \<longrightarrow>
             2 powr (- 1074) \<le> m \<and> m < 2 ^ 1024)" if "0 \<le> a" for a :: real
  proof -
    have "0 \<le> a / c"
      using that assms(2) by simp
    then show ?thesis
      using round_to_pyfloat_cases [of "a / c"] rnd_positive_least [of "a / c"] by auto
  qed
  with assms show ?thesis
    unfolding not_below_zero by (cases x) auto
qed

lemma float_pow_not_below_zero:
  assumes "libm_sound libm" and "\<not> flt x (Finite 0)" and "float_pow libm x w = Inr r"
  shows "\<exists>y. r = Float y \<and> \<not> flt y (Finite 0)"
proof -
  consider "w = 0" | "w \<noteq> 0" "x = NaN" | "w \<noteq> 0" "x = PosInf"
    | a where "w \<noteq> 0" "x = Finite a" "a = 0 \<or> a = 1"
    | a where "w \<noteq> 0" "x = Finite a" "0 < a" "a \<noteq> 1"
    using assms(2) unfolding not_below_zero by fastforce
  then show ?thesis
  proof cases
    case 1
    with assms(3) show ?thesis by (auto simp: float_pow_def)
  next
    case 2
    with assms(3) show ?thesis by (auto simp: float_pow_def)
  next
    case 3
    with assms(3) show ?thesis by (auto simp: float_pow_def)
  next
    case 4
    with assms(3) show ?thesis by (auto simp: float_pow_def split: if_splits)
  next
    case 5
    from assms(1) 5(3) obtain p erange where
      libm: "libm a w = (p, erange)" "p = PosInf \<or> (\<exists>y. p = Finite y \<and> 0 \<le> y \<and> y < 2 ^ 1024)"
      unfolding libm_sound_def by blast
    with assms(3) 5 show ?thesis
      by (auto simp: float_pow_def split: if_splits)
  qed
qed

subsection \<open>The steps of a run that returns\<close>

lemma calculator_steps:
  assumes "calculate_impact_effects_float libm diameter velocity = Inr e"
  shows "\<exists>ratio scale cube square megatons base.
     fdiv velocity (Finite 17) = Inr ratio
     \<and> float_pow libm ratio (rnd 0.43) = Inr scale
     \<and> float_pow libm (fmul diameter (Finite 500)) 3 = Inr cube
     \<and> float_pow libm (fmul velocity (Finite 1000)) 2 = Inr square
     \<and> fnum_div
         (fnum_mul
           (fnum_mul (Float (Finite 0.5))
             (fnum_mul (fnum_mul (Float (Finite (rnd (rnd (4 / 3) * pi_float)))) cube)
                (Float (Finite 2500))))
           square)
         (Finite (4.184 * 10 ^ 15)) = Inr megatons
     \<and> fnum_pow libm megatons (rnd 0.33) = Inr base
     \<and> energy_megatons_f e = megatons
     \<and> severe_damage_radius_f e = fnum_mul base (Float (Finite (rnd 2.2)))
     \<and> moderate_damage_radius_f e = fnum_mul base (Float (Finite 5.5))
     \<and> light_damage_radius_f e = fnum_mul base (Float (Finite 15))"
  using assms
  unfolding calculate_impact_effects_float_def and_then_def four_thirds_times_pi(1)
  by (simp only: sum.case four_thirds_times_pi(2) split: sum.splits) auto

text \<open>With inputs that are not negative the energy is a float that is not negative.\<close>

lemma energy_not_below_zero:
  assumes "libm_sound libm" and "\<not> flt diameter (Finite 0)" and "\<not> flt velocity (Finite 0)"
    and "calculate_impact_effects_float libm diameter velocity = Inr e"
  shows "\<exists>m. energy_megatons_f e = Float m \<and> \<not> flt m (Finite 0)
           \<and> (\<forall>x. m = Finite x \<longrightarrow> 0 < x \<longrightarrow> 2 powr (- 1074) \<le> x \<and> x < 2 ^ 1024)"
proof -
  from calculator_steps [OF assms(4)] obtain cube square megatons where
    cube: "float_pow libm (fmul diameter (Finite 500)) 3 = Inr cube"
    and square: "float_pow libm (fmul velocity (Finite 1000)) 2 = Inr square"
    and megatons: "fnum_div
         (fnum_mul
           (fnum_mul (Float (Finite 0.5))
             (fnum_mul (fnum_mul (Float (Finite (rnd (rnd (4 / 3) * pi_float)))) cube)
                (Float (Finite 2500))))
           square)
         (Finite (4.184 * 10 ^ 15)) = Inr megatons"
    and energy: "energy_megatons_f e = megatons"
    by blast
  have "\<not> flt (fmul diameter (Finite 500)) (Finite 0)"
    using assms(2) by (rule fmul_not_below_zero) simp
  from float_pow_not_below_zero [OF assms(1) this cube]
  obtain cu where cu: "cube = Float cu" "\<not> flt cu (Finite 0)"
    by blast
  have "\<not> flt (fmul velocity (Finite 1000)) (Finite 0)"
    using assms(3) by (rule fmul_not_below_zero) simp
  from float_pow_not_below_zero [OF assms(1) this square]
  obtain sq where sq: "square = Float sq" "\<not> flt sq (Finite 0)"
    by blast
  let ?c = "Finite (rnd (rnd (4 / 3) * pi_float))"
  let ?joules = "fmul (fmul (Finite 0.5) (fmul (fmul ?c cu) (Finite 2500))) sq"
  have "\<not> flt ?c (Finite 0)"
    using four_thirds_times_pi(3) by simp
  then have "\<not> flt (fmul ?c cu) (Finite 0)"
    using cu(2) by (rule fmul_not_below_zero)
  then have mass: "\<not> flt (fmul (fmul ?c cu) (Finite 2500)) (Finite 0)"
    by (rule fmul_not_below_zero) simp
  have "\<not> flt (Finite 0.5) (Finite 0)"
    by simp
  then have "\<not> flt (fmul (Finite 0.5) (fmul (fmul ?c cu) (Finite 2500))) (Finite 0)"
    using mass by (rule fmul_not_below_zero)
  then have "\<not> flt ?joules (Finite 0)"
    using sq(2) by (rule fmul_not_below_zero)
  from fdiv_not_below_zero [OF this, of "4.184 * 10 ^ 15"]
  obtain q where q: "fdiv ?joules (Finite (4.184 * 10 ^ 15)) = Inr q" "\<not> flt q (Finite 0)"
    "\<forall>m. q = Finite m \<longrightarrow> 0 < m \<longrightarrow> 2 powr (- 1074) \<le> m \<and> m < 2 ^ 1024"
    by auto
  have "megatons = Float q"
    using megatons q(1) unfolding cu(1) sq(1) by (simp only: fnum_mul.simps fnum_div.simps sum.case) simp
  with energy q(2,3) show ?thesis
    by blast
qed

subsection \<open>The damage radii\<close>

text \<open>The base of the radii for a finite energy above 0 is a float far from both ends.\<close>

lemma radius_base:
  assumes "libm_sound libm" and "2 powr (- 1074) \<le> x" and "x < 2 ^ 1024"
  shows "\<exists>y. float_pow libm (Finite x) (rnd 0.33) = Inr (Float (Finite y))
           \<and> 2 powr (- 538) \<le> y \<and> y \<le> 2 ^ 513"
proof (cases "x = 1")
  case True
  have "(2::real) powr (- 538) \<le> 2 powr 0"
    by (intro powr_mono) simp_all
  moreover have "(1::real) \<le> 2 ^ 513"
    by (rule one_le_power) simp
  ultimately show ?thesis
    using True rounded_literals(3) by (simp add: float_pow_def)
next
  case False
  define w where "w = rnd 0.33"
  have w: "1 / 4 \<le> w" "w \<le> 1 / 2"
    unfolding w_def by (rule rounded_literals)+
  have x: "0 < x"
    using assms(2) by (smt (verit) powr_gt_zero)
  define t where "t = x powr w"
  have "t \<le> (2 ^ 1024) powr w"
    unfolding t_def using x assms(3) w(1) by (intro powr_mono2) simp_all
  also have "\<dots> = (2 powr 1024) powr w"
    using powr_realpow [of 2 1024] by simp
  also have "\<dots> = 2 powr (1024 * w)"
    by (rule powr_powr)
  also have "\<dots> \<le> 2 powr 512"
    using w(2) by (intro powr_mono) simp_all
  finally have upper: "t \<le> 2 ^ 512"
    by simp
  have "(2::real) ^ 512 < 2 ^ 1023"
    by (intro power_strict_increasing) simp_all
  with upper have small: "t < 2 ^ 1023"
    by (rule le_less_trans)
  have "(2::real) powr (- 537) \<le> 2 powr (- 1074 * w)"
    using w(2) by (intro powr_mono) simp_all
  also have "\<dots> = (2 powr (- 1074)) powr w"
    by (simp add: powr_powr)
  also have "\<dots> \<le> t"
    unfolding t_def using assms(2) w(1) by (intro powr_mono2) simp_all
  finally have lower: "2 powr (- 537) \<le> t" .
  have "(2::real) powr (- 1021) \<le> 2 powr (- 537)"
    by (intro powr_mono) simp_all
  with lower have normal: "2 powr (- 1021) \<le> t"
    by (rule order_trans [rotated])
  from assms(1) x small normal obtain r erange y where
    libm: "libm x w = (r, erange)" "r = Finite y" "erange \<longrightarrow> y = 0" "t / 2 \<le> y" "y \<le> 2 * t"
    unfolding libm_sound_def t_def by (metis (no_types, lifting))
  have "2 powr (- 538) = 2 powr (- 537) / (2::real)"
    by (simp add: powr_diff [of 2 "- 537" 1, simplified])
  with lower libm(4) have low: "2 powr (- 538) \<le> y"
    by linarith
  have "y \<le> 2 * 2 ^ 512"
    using libm(5) upper by linarith
  then have high: "y \<le> 2 ^ 513"
    by simp
  have "0 < y"
    using low by (smt (verit) powr_gt_zero)
  with libm(1,2,3) x False have "float_pow libm (Finite x) w = Inr (Float (Finite y))"
    using w(1) by (auto simp: float_pow_def)
  with low high show ?thesis
    unfolding w_def by blast
qed

lemma radii_strict:
  assumes "2 powr (- 538) \<le> y" and "y \<le> 2 ^ 513"
  shows "\<exists>s mo l. fmul (Finite y) (Finite (rnd 2.2)) = Finite s
           \<and> fmul (Finite y) (Finite 5.5) = Finite mo
           \<and> fmul (Finite y) (Finite 15) = Finite l \<and> s < mo \<and> mo < l"
proof -
  define k where "k = rnd 2.2"
  have k: "2 \<le> k" "k \<le> 9 / 4"
    unfolding k_def by (rule rounded_literals)+
  have y: "0 < y"
    using assms(1) by (smt (verit) powr_gt_zero)
  have "(2::real) powr (- 1022) \<le> 2 powr (- 538)"
    by (intro powr_mono) simp_all
  with assms(1) have normal: "2 powr (- 1022) \<le> y"
    by (rule order_trans [rotated])
  have yk: "y * 2 \<le> y * k" "y * k \<le> y * (9 / 4)"
    using y k by (simp_all only: mult_le_cancel_left_pos)
  have "y * 15 \<le> 2 ^ 513 * 2 ^ 4"
    using assms(2) y by (intro mult_mono) simp_all
  then have top: "y * 15 \<le> 2 ^ 517"
    by (simp only: power_add [symmetric]) simp
  have sizes: "0 \<le> y * k" "y * k \<le> 2 ^ 517" "0 \<le> y * 5.5" "y * 5.5 \<le> 2 ^ 517" "0 \<le> y * 15"
    using y yk top by linarith+
  have finite: "fmul (Finite y) (Finite k) = Finite (rnd (y * k))"
    "fmul (Finite y) (Finite 5.5) = Finite (rnd (y * 5.5))"
    "fmul (Finite y) (Finite 15) = Finite (rnd (y * 15))"
    using round_to_pyfloat_finite(1) [OF sizes(1,2)] round_to_pyfloat_finite(1) [OF sizes(3,4)]
      round_to_pyfloat_finite(1) [OF sizes(5) top]
    by simp_all
  have "2 powr (- 1022) \<le> y * k"
    using normal yk(1) y by linarith
  moreover have "9 / 4 * (y * k) \<le> y * 5.5"
    using yk(2) y by simp
  ultimately have first: "rnd (y * k) < rnd (y * 5.5)"
    by (rule rnd_gap)
  have "2 powr (- 1022) \<le> y * 5.5"
    using normal y by simp
  moreover have "9 / 4 * (y * 5.5) \<le> y * 15"
    using y by simp
  ultimately have second: "rnd (y * 5.5) < rnd (y * 15)"
    by (rule rnd_gap)
  from finite first second show ?thesis
    unfolding k_def by blast
qed

text \<open>
  Claim C10, as the code has it. For floats \<open>diameter_km >= 0\<close> and \<open>velocity_kmps >= 0\<close>
  (\<open>+\<infinity>\<close> included) on which the calculator returns, on a C library whose \<^verbatim>\<open>pow\<close> is sound:
  the energy is NaN or not negative; when it is not NaN, the severe radius is at most the
  moderate radius and that at most the light radius, for Python's \<^verbatim>\<open><=\<close>; the order is
  strict when the energy is above 0 and finite; when the energy is \<open>+\<infinity>\<close> the three radii
  are \<open>+\<infinity>\<close>, and when it is NaN they are NaN.
\<close>

theorem damage_radii_ordered:
  assumes "libm_sound libm" and "fle (Finite 0) diameter" and "fle (Finite 0) velocity"
    and "calculate_impact_effects_float libm diameter velocity = Inr e"
  shows "\<exists>m s mo l.
      energy_megatons_f e = Float m \<and> severe_damage_radius_f e = Float s
    \<and> moderate_damage_radius_f e = Float mo \<and> light_damage_radius_f e = Float l
    \<and> (m = NaN \<or> fle (Finite 0) m)
    \<and> (fle (Finite 0) m \<longrightarrow> fle s mo \<and> fle mo l)
    \<and> (flt (Finite 0) m \<and> flt m PosInf \<longrightarrow> flt s mo \<and> flt mo l)
    \<and> (m = PosInf \<longrightarrow> s = PosInf \<and> mo = PosInf \<and> l = PosInf)
    \<and> (m = NaN \<longrightarrow> s = NaN \<and> mo = NaN \<and> l = NaN)"
proof -
  have inputs: "\<not> flt diameter (Finite 0)" "\<not> flt velocity (Finite 0)"
    using assms(2,3) unfolding at_least_zero by auto
  from energy_not_below_zero [OF assms(1) inputs assms(4)] obtain m where
    m: "energy_megatons_f e = Float m" "\<not> flt m (Finite 0)"
    "\<forall>x. m = Finite x \<longrightarrow> 0 < x \<longrightarrow> 2 powr (- 1074) \<le> x \<and> x < 2 ^ 1024"
    by blast
  from calculator_steps [OF assms(4)] m(1) obtain base where
    base: "float_pow libm m (rnd 0.33) = Inr base"
    and radii: "severe_damage_radius_f e = fnum_mul base (Float (Finite (rnd 2.2)))"
      "moderate_damage_radius_f e = fnum_mul base (Float (Finite 5.5))"
      "light_damage_radius_f e = fnum_mul base (Float (Finite 15))"
    by auto
  have w: "0 < rnd 0.33" and k: "0 < rnd 2.2"
    using rounded_literals(3,5) by simp_all
  consider "m = NaN" | "m = PosInf" | "m = Finite 0" | x where "m = Finite x" "0 < x"
    using m(2) unfolding not_below_zero by fastforce
  then show ?thesis
  proof cases
    case 1
    with base w have "base = Float NaN"
      by (simp add: float_pow_def)
    with 1 m(1) radii show ?thesis
      by simp
  next
    case 2
    with base w have "base = Float PosInf"
      by (simp add: float_pow_def)
    with 2 m(1) radii k show ?thesis
      by simp
  next
    case 3
    with base w have "base = Float (Finite 0)"
      by (simp add: float_pow_def)
    with 3 m(1) radii show ?thesis
      by (simp add: round_to_pyfloat_zero)
  next
    case 4
    with m(3) have "2 powr (- 1074) \<le> x" "x < 2 ^ 1024"
      by simp_all
    from radius_base [OF assms(1) this] base 4(1) obtain y where
      y: "base = Float (Finite y)" "2 powr (- 538) \<le> y" "y \<le> 2 ^ 513"
      by auto
    from radii_strict [OF y(2,3)] obtain s mo l where
      "fmul (Finite y) (Finite (rnd 2.2)) = Finite s" "fmul (Finite y) (Finite 5.5) = Finite mo"
      "fmul (Finite y) (Finite 15) = Finite l" "s < mo" "mo < l"
      by blast
    with 4 m(1) radii y(1) show ?thesis
      by (simp del: fmul.simps)
  qed
qed

lemma round_to_pyfloat_between:
  assumes "2 ^ i \<le> x" and "x \<le> 2 ^ j" and "j < 1024"
  shows "\<exists>c. round_to_pyfloat x = Finite c \<and> 2 ^ i \<le> c \<and> c \<le> 2 ^ j"
proof -
  have "(0::real) \<le> 2 ^ i"
    by simp
  then have "0 \<le> x"
    using assms(1) by (rule order_trans)
  from round_to_pyfloat_finite(1,3) [OF this assms(2,3)] rnd_ge_power [OF assms(1)]
  show ?thesis by blast
qed

lemma round_to_pyfloat_of_int:
  assumes "0 \<le> n" and "n < 2 ^ 53"
  shows "round_to_pyfloat (real_of_int n) = Finite (real_of_int n)"
proof -
  have "real_of_int n \<le> real_of_int (2 ^ 53)"
    using assms(2) by (simp only: of_int_le_iff)
  then have "real_of_int n \<le> 2 ^ 53"
    by simp
  moreover have "0 \<le> real_of_int n"
    using assms(1) by simp
  ultimately have "round_to_pyfloat (real_of_int n) = Finite (rnd (real_of_int n))"
    using round_to_pyfloat_finite(1) [of "real_of_int n" 53] by simp
  then show ?thesis
    using rnd_of_int [of n] assms by simp
qed

text \<open>A run at the diameter 1 km and the velocity 17 km/s: the energy is finite and above 0.\<close>

lemma example_run:
  "\<exists>e x. calculate_impact_effects_float example_libm (Finite 1) (Finite 17) = Inr e
     \<and> energy_megatons_f e = Float (Finite x) \<and> 2 ^ 14 \<le> x \<and> x \<le> 2 ^ 19"
proof -
  have w: "0 < rnd 0.43"
    using rounded_literals(1) by simp
  \<comment> \<open>line 33\<close>
  have ratio: "fdiv (Finite 17) (Finite 17) = Inr (Finite 1)"
    using round_to_pyfloat_of_int [of 1] by simp
  have scale: "float_pow example_libm (Finite 1) (rnd 0.43) = Inr (Float (Finite 1))"
    using w by (simp add: float_pow_def)
  \<comment> \<open>line 36\<close>
  have radius: "fmul (Finite 1) (Finite 500) = Finite 500"
    using round_to_pyfloat_of_int [of 500] by simp
  have cube: "float_pow example_libm (Finite 500) 3 = Inr (Float (Finite 125000000))"
    using round_to_pyfloat_of_int [of 125000000] by (simp add: float_pow_def example_libm_def)
  define c where "c = rnd (rnd (4 / 3) * pi_float)"
  have c: "4 \<le> c" "c \<le> 8"
    unfolding c_def by (rule four_thirds_times_pi)+
  have "2 ^ 28 \<le> c * 125000000" "c * 125000000 \<le> 2 ^ 30"
    using c by simp_all
  from round_to_pyfloat_between [OF this] obtain m1 where
    m1: "fmul (Finite c) (Finite 125000000) = Finite m1" "2 ^ 28 \<le> m1" "m1 \<le> 2 ^ 30"
    by auto
  have "2 ^ 39 \<le> m1 * 2500" "m1 * 2500 \<le> 2 ^ 42"
    using m1(2,3) by simp_all
  from round_to_pyfloat_between [OF this] obtain m2 where
    m2: "fmul (Finite m1) (Finite 2500) = Finite m2" "2 ^ 39 \<le> m2" "m2 \<le> 2 ^ 42"
    by auto
  \<comment> \<open>line 37\<close>
  have speed: "fmul (Finite 17) (Finite 1000) = Finite 17000"
    using round_to_pyfloat_of_int [of 17000] by simp
  have square: "float_pow example_libm (Finite 17000) 2 = Inr (Float (Finite 289000000))"
    using round_to_pyfloat_of_int [of 289000000] by (simp add: float_pow_def example_libm_def)
  have "2 ^ 38 \<le> 0.5 * m2" "0.5 * m2 \<le> 2 ^ 41"
    using m2(2,3) by simp_all
  from round_to_pyfloat_between [OF this] obtain h where
    h: "fmul (Finite 0.5) (Finite m2) = Finite h" "2 ^ 38 \<le> h" "h \<le> 2 ^ 41"
    by auto
  have "2 ^ 66 \<le> h * 289000000" "h * 289000000 \<le> 2 ^ 70"
    using h(2,3) by simp_all
  from round_to_pyfloat_between [OF this] obtain j where
    j: "fmul (Finite h) (Finite 289000000) = Finite j" "2 ^ 66 \<le> j" "j \<le> 2 ^ 70"
    by auto
  \<comment> \<open>line 38\<close>
  have "2 ^ 14 \<le> j / (4.184 * 10 ^ 15)" "j / (4.184 * 10 ^ 15) \<le> 2 ^ 19"
    using j(2,3) by (simp_all add: field_simps)
  from round_to_pyfloat_between [OF this] obtain x where
    x: "fdiv (Finite j) (Finite (4.184 * 10 ^ 15)) = Inr (Finite x)" "2 ^ 14 \<le> x" "x \<le> 2 ^ 19"
    by auto
  \<comment> \<open>line 41\<close>
  have "(2::real) powr (- 1074) \<le> 2 powr 0"
    by (intro powr_mono) simp_all
  then have "2 powr (- 1074) \<le> x"
    using x(2) by simp
  moreover have "(2::real) ^ 19 < 2 ^ 1024"
    by (intro power_strict_increasing) simp_all
  with x(3) have "x < 2 ^ 1024"
    by (rule le_less_trans)
  ultimately obtain y where
    base: "float_pow example_libm (Finite x) (rnd 0.33) = Inr (Float (Finite y))"
    using radius_base [OF example_libm_sound] by blast
  define e where
    "e = \<lparr> crater_diameter_f = fnum_mul (Float (fmul (Finite 1) (Finite 20))) (Float (Finite 1)),
            energy_megatons_f = Float (Finite x),
            severe_damage_radius_f = fnum_mul (Float (Finite y)) (Float (Finite (rnd 2.2))),
            moderate_damage_radius_f = fnum_mul (Float (Finite y)) (Float (Finite 5.5)),
            light_damage_radius_f = fnum_mul (Float (Finite y)) (Float (Finite 15)) \<rparr>"
  have "calculate_impact_effects_float example_libm (Finite 1) (Finite 17) = Inr e"
    unfolding e_def
    by (simp only: calculate_impact_effects_float_def and_then_def ratio scale
        four_thirds_times_pi(1,2) radius cube speed square c_def [symmetric] m1(1) m2(1) h(1)
        j(1) x(1) base sum.case fnum_mul.simps fnum_div.simps fnum_pow.simps)
  moreover have "energy_megatons_f e = Float (Finite x)"
    by (simp add: e_def)
  ultimately show ?thesis
    using x(2,3) by blast
qed

theorem damage_radii_ordered_witness:
  "libm_sound example_libm \<and> fle (Finite 0) (Finite 1) \<and> fle (Finite 0) (Finite 17)
   \<and> (\<exists>e x s mo l.
         calculate_impact_effects_float example_libm (Finite 1) (Finite 17) = Inr e
       \<and> energy_megatons_f e = Float (Finite x) \<and> 0 < x
       \<and> severe_damage_radius_f e = Float s \<and> moderate_damage_radius_f e = Float mo
       \<and> light_damage_radius_f e = Float l \<and> flt s mo \<and> flt mo l)"
proof -
  from example_run obtain e x where
    run: "calculate_impact_effects_float example_libm (Finite 1) (Finite 17) = Inr e"
    and x: "energy_megatons_f e = Float (Finite x)" "2 ^ 14 \<le> x"
    by blast
  have inputs: "fle (Finite 0) (Finite 1)" "fle (Finite 0) (Finite 17)"
    by simp_all
  have "0 < x"
    using x(2) by simp
  with damage_radii_ordered [OF example_libm_sound inputs run] x(1) run
  have "\<exists>e x s mo l.
         calculate_impact_effects_float example_libm (Finite 1) (Finite 17) = Inr e
       \<and> energy_megatons_f e = Float (Finite x) \<and> 0 < x
       \<and> severe_damage_radius_f e = Float s \<and> moderate_damage_radius_f e = Float mo
       \<and> light_damage_radius_f e = Float l \<and> flt s mo \<and> flt mo l"
    by fastforce
  with example_libm_sound inputs show ?thesis
    by blast
qed

text \<open>
  It is not so for every input. At the diameter \<open>2^1020\<close> km and the velocity 0 the
  radius overflows to \<open>+\<infinity>\<close>, the energy is \<open>+\<infinity> * 0\<close>, which is NaN, and so are the three
  radii: no two of them are in the order \<^verbatim>\<open><=\<close>. At the diameter \<open>2^332\<close> km and the
  velocity 17 km/s the energy, which is above 0, and the three radii are \<open>+\<infinity>\<close>: the order
  is not strict.
\<close>

theorem damage_radii_not_ordered:
  "calculate_impact_effects_float example_libm (Finite (2 ^ 1020)) (Finite 0) =
     Inr \<lparr> crater_diameter_f = Float NaN, energy_megatons_f = Float NaN,
           severe_damage_radius_f = Float NaN, moderate_damage_radius_f = Float NaN,
           light_damage_radius_f = Float NaN \<rparr>
   \<and> \<not> fle NaN NaN
   \<and> calculate_impact_effects_float example_libm (Finite (2 ^ 332)) (Finite 17) =
     Inr \<lparr> crater_diameter_f = Float (Finite (20 * 2 ^ 332)), energy_megatons_f = Float PosInf,
           severe_damage_radius_f = Float PosInf, moderate_damage_radius_f = Float PosInf,
           light_damage_radius_f = Float PosInf \<rparr>
   \<and> flt (Finite 0) PosInf \<and> \<not> flt PosInf PosInf"
proof -
  have w: "0 < rnd 0.43" "0 < rnd 0.33" and k: "0 < rnd 2.2"
    using rounded_literals(1,3,5) by simp_all
  have c: "0 < rnd (rnd (4 / 3) * pi_float)"
    using four_thirds_times_pi(3) by simp
  \<comment> \<open>the diameter \<open>2^1020\<close> and the velocity 0\<close>
  define p :: real where "p = 2 ^ 1020"
  have "p * 2 ^ 4 \<le> p * 20" "p * 2 ^ 4 \<le> p * 500"
    unfolding p_def by simp_all
  moreover have "p * 2 ^ 4 = 2 ^ 1024"
    unfolding p_def by (simp only: power_add [symmetric]) simp
  ultimately have "2 ^ 1024 \<le> p * 20" "2 ^ 1024 \<le> p * 500"
    by simp_all
  then have large: "fmul (Finite p) (Finite 20) = PosInf" "fmul (Finite p) (Finite 500) = PosInf"
    using round_to_pyfloat_overflow by simp_all
  have zero: "fdiv (Finite 0) (Finite 17) = Inr (Finite 0)"
    "fmul (Finite 0) (Finite 1000) = Finite 0"
    by (simp_all add: round_to_pyfloat_zero)
  have powers: "float_pow example_libm (Finite 0) (rnd 0.43) = Inr (Float (Finite 0))"
    "float_pow example_libm PosInf 3 = Inr (Float PosInf)"
    "float_pow example_libm (Finite 0) 2 = Inr (Float (Finite 0))"
    "float_pow example_libm NaN (rnd 0.33) = Inr (Float NaN)"
    "float_pow example_libm PosInf (rnd 0.33) = Inr (Float PosInf)"
    using w by (simp_all add: float_pow_def)
  have products: "fmul (Finite (rnd (rnd (4 / 3) * pi_float))) PosInf = PosInf"
    "fmul PosInf (Finite 2500) = PosInf" "fmul (Finite 0.5) PosInf = PosInf"
    "fmul PosInf (Finite 0) = NaN" "fdiv NaN (Finite (4.184 * 10 ^ 15)) = Inr NaN"
    "fdiv PosInf (Finite (4.184 * 10 ^ 15)) = Inr PosInf"
    "fmul PosInf (Finite (rnd 2.2)) = PosInf" "fmul PosInf (Finite 5.5) = PosInf"
    "fmul PosInf (Finite 15) = PosInf"
    "fmul NaN (Finite (rnd 2.2)) = NaN" "fmul NaN (Finite 5.5) = NaN"
    "fmul NaN (Finite 15) = NaN"
    using c k by simp_all
  have "calculate_impact_effects_float example_libm (Finite p) (Finite 0) =
     Inr \<lparr> crater_diameter_f = Float NaN, energy_megatons_f = Float NaN,
           severe_damage_radius_f = Float NaN, moderate_damage_radius_f = Float NaN,
           light_damage_radius_f = Float NaN \<rparr>"
    by (simp only: calculate_impact_effects_float_def and_then_def zero powers large products
        four_thirds_times_pi(1,2) sum.case fnum_mul.simps fnum_div.simps fnum_pow.simps)
  then have first: "calculate_impact_effects_float example_libm (Finite (2 ^ 1020)) (Finite 0) =
     Inr \<lparr> crater_diameter_f = Float NaN, energy_megatons_f = Float NaN,
           severe_damage_radius_f = Float NaN, moderate_damage_radius_f = Float NaN,
           light_damage_radius_f = Float NaN \<rparr>"
    by (simp only: p_def)
  \<comment> \<open>the diameter \<open>2^332\<close> and the velocity 17\<close>
  define q :: real where "q = 2 ^ 332"
  have q: "0 < q" "q = 2 powr real_of_int 332"
    unfolding q_def using powr_realpow [of 2 332] by simp_all
  have ratio: "fdiv (Finite 17) (Finite 17) = Inr (Finite 1)"
    using round_to_pyfloat_of_int [of 1] by simp
  have scale: "float_pow example_libm (Finite 1) (rnd 0.43) = Inr (Float (Finite 1))"
    using w by (simp add: float_pow_def)
  have exact: "rnd (q * 20) = q * 20" "rnd (q * 500) = q * 500"
    using rnd_exact [of "q * 20" 20 332] rnd_exact [of "q * 500" 500 332] q(2) by simp_all
  have "q * 20 \<le> q * 2 ^ 9" "q * 500 \<le> q * 2 ^ 9"
    using q(1) by simp_all
  moreover have "q * 2 ^ 9 = 2 ^ 341"
    unfolding q_def by (simp only: power_add [symmetric]) simp
  ultimately have below: "q * 20 \<le> 2 ^ 341" "q * 500 \<le> 2 ^ 341"
    by simp_all
  have crater: "fmul (Finite q) (Finite 20) = Finite (q * 20)"
    using round_to_pyfloat_finite(1) [OF _ below(1)] q(1) exact(1) by simp
  have unit: "fmul (Finite (q * 20)) (Finite 1) = Finite (q * 20)"
    using round_to_pyfloat_finite(1) [OF _ below(1)] q(1) exact(1) by simp
  have radius: "fmul (Finite q) (Finite 500) = Finite (q * 500)"
    using round_to_pyfloat_finite(1) [OF _ below(2)] q(1) exact(2) by simp
  have "(q * 500) ^ 3 = q ^ 3 * 125000000"
    by (simp add: power_mult_distrib)
  moreover have q3: "q ^ 3 = 2 ^ 996"
    unfolding q_def by (simp only: power_mult [symmetric]) simp
  ultimately have volume: "(q * 500) powr 3 = 2 ^ 996 * 125000000"
    using q(1) by simp
  have "(2::real) ^ 996 * 2 ^ 26 \<le> 2 ^ 996 * 125000000" "(2::real) ^ 996 * 125000000 \<le> 2 ^ 996 * 2 ^ 27"
    by simp_all
  then have "2 ^ 1022 \<le> (q * 500) powr 3" "(q * 500) powr 3 \<le> 2 ^ 1023"
    unfolding volume by (simp_all only: power_add [symmetric]) simp_all
  from round_to_pyfloat_between [OF this] obtain v where
    v: "round_to_pyfloat ((q * 500) powr 3) = Finite v" "2 ^ 1022 \<le> v"
    by auto
  have "q * 500 \<noteq> 0" "0 < q * 500" "q * 500 \<noteq> 1"
    using q(1) below(2) exact(2) unfolding q_def by simp_all
  then have cube: "float_pow example_libm (Finite (q * 500)) 3 = Inr (Float (Finite v))"
    using v(1) by (simp add: float_pow_def example_libm_def)
  have "2 ^ 2 * 2 ^ 1022 \<le> rnd (rnd (4 / 3) * pi_float) * v"
    using four_thirds_times_pi(3) v(2) by (intro mult_mono) simp_all
  then have "2 ^ 1024 \<le> rnd (rnd (4 / 3) * pi_float) * v"
    by (simp only: power_add [symmetric]) simp
  then have mass: "fmul (Finite (rnd (rnd (4 / 3) * pi_float))) (Finite v) = PosInf"
    using round_to_pyfloat_overflow by simp
  have speed: "fmul (Finite 17) (Finite 1000) = Finite 17000"
    using round_to_pyfloat_of_int [of 17000] by simp
  have square: "float_pow example_libm (Finite 17000) 2 = Inr (Float (Finite 289000000))"
    using round_to_pyfloat_of_int [of 289000000] by (simp add: float_pow_def example_libm_def)
  have joules: "fmul PosInf (Finite 289000000) = PosInf"
    by simp
  have "calculate_impact_effects_float example_libm (Finite q) (Finite 17) =
     Inr \<lparr> crater_diameter_f = Float (Finite (q * 20)), energy_megatons_f = Float PosInf,
           severe_damage_radius_f = Float PosInf, moderate_damage_radius_f = Float PosInf,
           light_damage_radius_f = Float PosInf \<rparr>"
    by (simp only: calculate_impact_effects_float_def and_then_def ratio scale crater unit
        radius cube mass speed square joules powers products four_thirds_times_pi(1,2)
        sum.case fnum_mul.simps fnum_div.simps fnum_pow.simps)
  then have second: "calculate_impact_effects_float example_libm (Finite (2 ^ 332)) (Finite 17) =
     Inr \<lparr> crater_diameter_f = Float (Finite (20 * 2 ^ 332)), energy_megatons_f = Float PosInf,
           severe_damage_radius_f = Float PosInf, moderate_damage_radius_f = Float PosInf,
           light_damage_radius_f = Float PosInf \<rparr>"
    by (simp only: q_def mult.commute)
  from first second show ?thesis
    by simp
qed
end
